theory Spec2Isabelle
  imports Complex_Main
begin

section \<open>Errors and Python primitives\<close>

text \<open>
  Exceptions of the Python source are values. \<open>RuntimeError prefix cause\<close> is the
  re-raise \<^verbatim>\<open>raise RuntimeError(f"<prefix>: {err}")\<close> of an \<^verbatim>\<open>except Exception as err\<close>
  handler; \<open>LibraryError\<close> is any exception raised inside an external library call
  (moviepy, scipy, matplotlib, the operating system).
\<close>

datatype error =
    ZeroDivisionError
  | IndexError
  | TypeError
  | ValueError string
  | LibraryError string
  | RuntimeError string error

text \<open>Python's \<^verbatim>\<open>int(x)\<close> on a float: truncation toward zero.\<close>

definition py_int :: "real \<Rightarrow> int" where
  "py_int x = (if 0 \<le> x then \<lfloor>x\<rfloor> else \<lceil>x\<rceil>)"

text \<open>
  The slice \<^verbatim>\<open>xs[start:stop]\<close>: a negative bound counts from the back, and both bounds
  are clipped to the sequence.
\<close>

definition py_bound :: "int \<Rightarrow> int \<Rightarrow> nat" where
  "py_bound n i = nat (if i < 0 then max 0 (n + i) else min i n)"

definition py_slice :: "'a list \<Rightarrow> int \<Rightarrow> int \<Rightarrow> 'a list" where
  "py_slice xs start stop =
     (let n = int (length xs)
      in drop (py_bound n start) (take (py_bound n stop) xs))"

section \<open>The loudness analyser: \<^verbatim>\<open>compute_loudness\<close>\<close>

text \<open>
  Samples and all floating-point quantities are modelled as real numbers.
  \<^verbatim>\<open>np.mean\<close> of a non-empty frame is the sum divided by the number of samples.
\<close>

definition np_mean :: "real list \<Rightarrow> real" where
  "np_mean xs = sum_list xs / real (length xs)"

text \<open>\<^verbatim>\<open>rms = np.sqrt(np.mean(frame.astype(float) ** 2))\<close>\<close>

definition frame_rms :: "real list \<Rightarrow> real" where
  "frame_rms frame = sqrt (np_mean (map (\<lambda>s. s ^ 2) frame))"

text \<open>
  \<^verbatim>\<open>if rms < 1e-10: db = -100  else: db = 20 * np.log10(rms / (2**15))\<close>
\<close>

definition rms_to_db :: "real \<Rightarrow> real" where
  "rms_to_db rms = (if rms < 1 / 10 ^ 10 then - 100 else 20 * log 10 (rms / 2 ^ 15))"

text \<open>
  The body of \<^verbatim>\<open>for i in range(n_frames)\<close>, iterated over the indices still to
  visit; the pair carries the lists \<^verbatim>\<open>times\<close> and \<^verbatim>\<open>loudness_db\<close>. An empty frame is
  skipped (\<^verbatim>\<open>continue\<close>); \<^verbatim>\<open>start / sr\<close> raises on a zero sample rate.
\<close>

fun loudness_loop ::
  "real list \<Rightarrow> int \<Rightarrow> int \<Rightarrow> nat list \<Rightarrow> real list \<times> real list
     \<Rightarrow> error + real list \<times> real list" where
  "loudness_loop audio sr frame_size [] acc = Inr acc"
| "loudness_loop audio sr frame_size (i # rest) (times_list, loudness_db) =
     (let start = int i * frame_size;
          stop = min ((int i + 1) * frame_size) (int (length audio));
          frame = py_slice audio start stop
      in if length frame = 0 then loudness_loop audio sr frame_size rest (times_list, loudness_db)
         else if sr = 0 then Inl ZeroDivisionError
         else loudness_loop audio sr frame_size rest
                (times_list @ [real_of_int start / real_of_int sr],
                 loudness_db @ [rms_to_db (frame_rms frame)]))"

text \<open>
  The \<^verbatim>\<open>try\<close> block of \<^verbatim>\<open>compute_loudness\<close>. \<^verbatim>\<open>len(audio) / frame_size\<close> is a division
  of Python integers and raises \<^verbatim>\<open>ZeroDivisionError\<close> when \<^verbatim>\<open>frame_size\<close> is zero;
  \<^verbatim>\<open>range\<close> of a non-positive count is empty.
\<close>

definition compute_loudness_body ::
  "real list \<Rightarrow> int \<Rightarrow> real \<Rightarrow> error + real list \<times> real list" where
  "compute_loudness_body audio sr frame_duration =
     (let frame_size = py_int (real_of_int sr * frame_duration)
      in if frame_size = 0 then Inl ZeroDivisionError
         else let n_frames = \<lceil>real (length audio) / real_of_int frame_size\<rceil>
              in loudness_loop audio sr frame_size [0..<nat n_frames] ([], []))"

text \<open>
  \<^verbatim>\<open>except Exception as err: raise RuntimeError(f"Error in compute_loudness: {err}")\<close>
\<close>

definition compute_loudness ::
  "real list \<Rightarrow> int \<Rightarrow> real \<Rightarrow> error + real list \<times> real list" where
  "compute_loudness audio sr frame_duration =
     (case compute_loudness_body audio sr frame_duration of
        Inl err \<Rightarrow> Inl (RuntimeError ''Error in compute_loudness'' err)
      | Inr series \<Rightarrow> Inr series)"

text \<open>
  The specification's description of frame \<open>i\<close>: the samples at indices
  \<open>[i * frame_size, min ((i + 1) * frame_size) (len samples))\<close>.
\<close>

definition spec_frame :: "'a list \<Rightarrow> nat \<Rightarrow> nat \<Rightarrow> 'a list" where
  "spec_frame xs fs i = drop (i * fs) (take (min ((i + 1) * fs) (length xs)) xs)"

text \<open>
  The specification's frame size, \<^verbatim>\<open>round(sample_rate * frame_duration)\<close>, to be compared
  with the truncation the source performs.
\<close>

definition spec_frame_size :: "int \<Rightarrow> real \<Rightarrow> int" where
  "spec_frame_size sr frame_duration = round (real_of_int sr * frame_duration)"

section \<open>The smoother: \<^verbatim>\<open>moving_average\<close>\<close>

text \<open>
  \<^verbatim>\<open>np.ones(window_size) / window_size\<close>: \<^verbatim>\<open>np.ones\<close> refuses a negative length; of
  length zero it is the empty array, which the division leaves empty.
\<close>

definition np_ones_div :: "int \<Rightarrow> error + real list" where
  "np_ones_div window_size =
     (if window_size < 0 then Inl (ValueError ''negative dimensions are not allowed'')
      else Inr (replicate (nat window_size) (1 / real_of_int window_size)))"

text \<open>
  The full discrete convolution of numpy, \<open>(a * v)[k] = \<Sum>j. a[j] * v[k - j]\<close>, of length
  \<open>len a + len v - 1\<close>.
\<close>

definition conv_full :: "real list \<Rightarrow> real list \<Rightarrow> real list" where
  "conv_full a v =
     map (\<lambda>k. \<Sum>j\<leftarrow>[0..<length a]. if j \<le> k \<and> k - j < length v then a ! j * v ! (k - j) else 0)
       [0..<length a + length v - 1]"

text \<open>
  \<^verbatim>\<open>np.convolve(a, v, mode='same')\<close>: numpy first swaps the arguments so that \<open>a\<close> is the
  longer one and raises \<^verbatim>\<open>ValueError\<close> on an empty argument; the result is the centred
  part of the full convolution, as long as the longer argument, that starts at offset
  \<open>(len v - 1) div 2\<close> for the shorter argument \<open>v\<close>.
\<close>

definition np_convolve_same :: "real list \<Rightarrow> real list \<Rightarrow> error + real list" where
  "np_convolve_same a v =
     (let (a', v') = (if length a < length v then (v, a) else (a, v))
      in if length a' = 0 then Inl (ValueError ''a cannot be empty'')
         else if length v' = 0 then Inl (ValueError ''v cannot be empty'')
         else Inr (take (length a') (drop ((length v' - 1) div 2) (conv_full a' v'))))"

text \<open>
  \<^verbatim>\<open>return np.convolve(data, np.ones(window_size)/window_size, mode='same')\<close>
\<close>

definition moving_average :: "real list \<Rightarrow> int \<Rightarrow> error + real list" where
  "moving_average data window_size =
     (case np_ones_div window_size of
        Inl err \<Rightarrow> Inl err
      | Inr window \<Rightarrow> np_convolve_same data window)"

section \<open>The highlight engine: \<^verbatim>\<open>highlight_audio_section\<close>\<close>

text \<open>
  An elementwise binary operation of numpy on two one-dimensional arrays: arrays of equal
  length are combined entry by entry, an array of length one is broadcast against the
  other, and any other pair of lengths raises \<^verbatim>\<open>ValueError\<close>.
\<close>

definition np_elementwise :: "('a \<Rightarrow> 'b \<Rightarrow> 'c) \<Rightarrow> 'a list \<Rightarrow> 'b list \<Rightarrow> error + 'c list" where
  "np_elementwise f xs ys =
     (if length xs = length ys then Inr (map2 f xs ys)
      else if length xs = 1 then Inr (map (f (hd xs)) ys)
      else if length ys = 1 then Inr (map (\<lambda>x. f x (hd ys)) xs)
      else Inl (ValueError ''operands could not be broadcast together''))"

text \<open>
  The mask \<^verbatim>\<open>condition\<close> of \<^verbatim>\<open>highlight_audio_section\<close>:
  \<^verbatim>\<open>(times_array >= start_time) & (times_array <= end_time) & (loudness_array > threshold)\<close>
  when \<^verbatim>\<open>above\<close>, and with \<^verbatim>\<open>loudness_array < threshold\<close> otherwise.
\<close>

definition highlight_condition ::
  "real list \<Rightarrow> real list \<Rightarrow> real \<Rightarrow> real \<Rightarrow> real \<Rightarrow> bool \<Rightarrow> error + bool list" where
  "highlight_condition times_array loudness_array start_time end_time threshold above_flag =
     (case np_elementwise (\<and>) (map (\<lambda>t. start_time \<le> t) times_array)
             (map (\<lambda>t. t \<le> end_time) times_array) of
        Inl err \<Rightarrow> Inl err
      | Inr in_range \<Rightarrow>
          np_elementwise (\<and>) in_range
            (if above_flag then map (\<lambda>v. threshold < v) loudness_array
             else map (\<lambda>v. v < threshold) loudness_array))"

text \<open>
  The chart library is external. Its calls are parameters of the model: each takes the
  axes drawn so far and returns the axes after the call, or the exception it raised.
  \<^item> \<open>begin_figure\<close>: \<^verbatim>\<open>plt.style.use\<close> and \<^verbatim>\<open>plt.subplots\<close>;
  \<^item> \<open>plot_curve\<close>: \<^verbatim>\<open>ax.plot(times, loudness, ...)\<close>;
  \<^item> \<open>axhline\<close>: one reference line;
  \<^item> \<open>fill_between\<close>: \<^verbatim>\<open>ax.fill_between(times, loudness, threshold, where=..., color=..., alpha=...)\<close>;
  \<^item> \<open>decorate\<close>: the legend patches, labels, title, y ticks and y limits;
  \<^item> \<open>set_xaxis\<close>: \<^verbatim>\<open>set_xticks(np.arange(0, last + 5, 5))\<close> and \<^verbatim>\<open>set_xlim(0, last)\<close>;
  \<^item> \<open>finish_layout\<close>: tick parameters, the deduplicated legend, grid and tight layout;
  \<^item> \<open>savefig\<close>: \<^verbatim>\<open>plt.savefig(save_path, ...)\<close>, returning the exception if it raises.
\<close>

record 'ax mpl =
  begin_figure :: "error + 'ax"
  plot_curve :: "'ax \<Rightarrow> real list \<Rightarrow> real list \<Rightarrow> error + 'ax"
  axhline :: "'ax \<Rightarrow> real \<Rightarrow> string \<Rightarrow> error + 'ax"
  fill_between :: "'ax \<Rightarrow> real list \<Rightarrow> real list \<Rightarrow> real \<Rightarrow> bool list \<Rightarrow> string \<Rightarrow> real \<Rightarrow> error + 'ax"
  decorate :: "'ax \<Rightarrow> error + 'ax"
  set_xaxis :: "'ax \<Rightarrow> real \<Rightarrow> error + 'ax"
  finish_layout :: "'ax \<Rightarrow> error + 'ax"
  savefig :: "'ax \<Rightarrow> string \<Rightarrow> error option"

text \<open>
  \<^verbatim>\<open>highlight_audio_section(ax, times, loudness, start_time, end_time, threshold, color,
  alpha, above)\<close>: both branches compute the mask and call \<^verbatim>\<open>ax.fill_between\<close>; any
  exception is re-raised as a \<^verbatim>\<open>RuntimeError\<close>.
\<close>

definition highlight_audio_section ::
  "'ax mpl \<Rightarrow> 'ax \<Rightarrow> real list \<Rightarrow> real list \<Rightarrow> real \<Rightarrow> real \<Rightarrow> real \<Rightarrow> string \<Rightarrow> real \<Rightarrow> bool
     \<Rightarrow> error + 'ax" where
  "highlight_audio_section m ax times_list loudness start_time end_time threshold color alpha above_flag =
     (case (case highlight_condition times_list loudness start_time end_time threshold above_flag of
              Inl err \<Rightarrow> Inl err
            | Inr condition \<Rightarrow> fill_between m ax times_list loudness threshold condition color alpha) of
        Inl err \<Rightarrow> Inl (RuntimeError ''Error highlighting audio section'' err)
      | Inr ax' \<Rightarrow> Inr ax')"

section \<open>The renderer: \<^verbatim>\<open>plot_loudness\<close>\<close>

text \<open>
  One entry of the list \<^verbatim>\<open>highlights\<close> is a dictionary passed as keyword arguments. The
  keys \<^verbatim>\<open>alpha\<close> and \<^verbatim>\<open>above\<close> may be absent (defaults 0.3 and \<^verbatim>\<open>False\<close>); a dictionary
  with a required key missing or with an unknown key is \<open>BadKwargs\<close>: the call raises
  \<^verbatim>\<open>TypeError\<close>.
\<close>

record highlight =
  start_time :: real
  end_time :: real
  threshold :: real
  color :: string
  alpha :: "real option"
  above_flag :: "bool option"

datatype kwargs = Kwargs highlight | BadKwargs

text \<open>What the program prints.\<close>

datatype message =
    HighlightWarning kwargs error
  | SaveError string error
  | MainError error
  | RemoveError error

text \<open>
  The observable state: the printed lines, the chart files written by \<^verbatim>\<open>savefig\<close>, and the
  paths of the audio files on disk.
\<close>

record 'ax world =
  printed :: "message list"
  charts :: "(string \<times> 'ax) list"
  files :: "string set"

text \<open>\<^verbatim>\<open>highlight_audio_section(ax, times, loudness, **highlight)\<close>\<close>

definition call_highlight ::
  "'ax mpl \<Rightarrow> 'ax \<Rightarrow> real list \<Rightarrow> real list \<Rightarrow> kwargs \<Rightarrow> error + 'ax" where
  "call_highlight m ax times_list loudness kw =
     (case kw of
        BadKwargs \<Rightarrow> Inl TypeError
      | Kwargs h \<Rightarrow>
          highlight_audio_section m ax times_list loudness (start_time h) (end_time h) (threshold h)
            (color h) (case alpha h of None \<Rightarrow> 3 / 10 | Some a \<Rightarrow> a)
            (case above_flag h of None \<Rightarrow> False | Some b \<Rightarrow> b))"

text \<open>
  The loop \<^verbatim>\<open>for highlight in highlights\<close> with its \<^verbatim>\<open>try\<close>/\<^verbatim>\<open>except\<close>: a failing call
  prints a warning and the loop goes on with the axes as they were. The pair is the axes
  and the lines printed so far.
\<close>

fun highlight_loop ::
  "'ax mpl \<Rightarrow> real list \<Rightarrow> real list \<Rightarrow> kwargs list \<Rightarrow> 'ax \<times> message list \<Rightarrow> 'ax \<times> message list" where
  "highlight_loop m times_list loudness [] (ax, out) = (ax, out)"
| "highlight_loop m times_list loudness (h # rest) (ax, out) =
     (case call_highlight m ax times_list loudness h of
        Inl err \<Rightarrow> highlight_loop m times_list loudness rest (ax, out @ [HighlightWarning h err])
      | Inr ax' \<Rightarrow> highlight_loop m times_list loudness rest (ax', out))"

text \<open>\<^verbatim>\<open>times[-1]\<close>: the last element, \<^verbatim>\<open>IndexError\<close> on an empty sequence.\<close>

definition py_last :: "'a list \<Rightarrow> error + 'a" where
  "py_last xs = (if xs = [] then Inl IndexError else Inr (last xs))"

text \<open>Lines 137 to 142: the figure, the loudness curve and the two reference lines.\<close>

definition draw_base :: "'ax mpl \<Rightarrow> real list \<Rightarrow> real list \<Rightarrow> error + 'ax" where
  "draw_base m times_list loudness =
     (case begin_figure m of
        Inl err \<Rightarrow> Inl err
      | Inr ax0 \<Rightarrow>
          (case plot_curve m ax0 times_list loudness of
             Inl err \<Rightarrow> Inl err
           | Inr ax1 \<Rightarrow>
               (case axhline m ax1 (- 22) ''red'' of
                  Inl err \<Rightarrow> Inl err
                | Inr ax2 \<Rightarrow> axhline m ax2 (- 26) ''blue'')))"

text \<open>Lines 151 to 175: legend entries, labels and axes, the x axis from \<^verbatim>\<open>times[-1]\<close>.\<close>

definition draw_axes :: "'ax mpl \<Rightarrow> real list \<Rightarrow> 'ax \<Rightarrow> error + 'ax" where
  "draw_axes m times_list ax =
     (case decorate m ax of
        Inl err \<Rightarrow> Inl err
      | Inr ax1 \<Rightarrow>
          (case py_last times_list of
             Inl err \<Rightarrow> Inl err
           | Inr last_time \<Rightarrow>
               (case set_xaxis m ax1 last_time of
                  Inl err \<Rightarrow> Inl err
                | Inr ax2 \<Rightarrow> finish_layout m ax2)))"

text \<open>
  Lines 176 to 182: \<^verbatim>\<open>if save_path:\<close> the figure is saved; a failure of \<^verbatim>\<open>savefig\<close> is
  printed and not raised.
\<close>

definition save_figure :: "'ax mpl \<Rightarrow> 'ax \<Rightarrow> string \<Rightarrow> 'ax world \<Rightarrow> 'ax world" where
  "save_figure m ax save_path w =
     (if save_path = [] then w
      else (case savefig m ax save_path of
              Some err \<Rightarrow> w\<lparr>printed := printed w @ [SaveError save_path err]\<rparr>
            | None \<Rightarrow> w\<lparr>charts := charts w @ [(save_path, ax)]\<rparr>))"

text \<open>
  The \<^verbatim>\<open>try\<close> block of \<^verbatim>\<open>plot_loudness\<close>. A missing or empty \<^verbatim>\<open>highlights\<close> skips the
  loop, as the loop over the empty list does.
\<close>

definition plot_loudness_body ::
  "'ax mpl \<Rightarrow> real list \<Rightarrow> real list \<Rightarrow> string \<Rightarrow> kwargs list \<Rightarrow> 'ax world \<Rightarrow> (error + unit) \<times> 'ax world" where
  "plot_loudness_body m times_list loudness save_path highlights w =
     (case draw_base m times_list loudness of
        Inl err \<Rightarrow> (Inl err, w)
      | Inr ax \<Rightarrow>
          (let (ax', out) = highlight_loop m times_list loudness highlights (ax, printed w);
               w' = w\<lparr>printed := out\<rparr>
           in case draw_axes m times_list ax' of
                Inl err \<Rightarrow> (Inl err, w')
              | Inr ax'' \<Rightarrow> (Inr (), save_figure m ax'' save_path w')))"

text \<open>
  \<^verbatim>\<open>except Exception as err: raise RuntimeError(f"Error occurred while plotting loudness: {err}")\<close>
\<close>

definition plot_loudness ::
  "'ax mpl \<Rightarrow> real list \<Rightarrow> real list \<Rightarrow> string \<Rightarrow> kwargs list \<Rightarrow> 'ax world \<Rightarrow> (error + unit) \<times> 'ax world" where
  "plot_loudness m times_list loudness save_path highlights w =
     (case plot_loudness_body m times_list loudness save_path highlights w of
        (Inl err, w') \<Rightarrow> (Inl (RuntimeError ''Error occurred while plotting loudness'' err), w')
      | (Inr u, w') \<Rightarrow> (Inr u, w'))"

section \<open>A concrete chart library for the examples\<close>

text \<open>
  A stand-in chart library for concrete runs: the axes are the list of what was drawn,
  \<^verbatim>\<open>fill_between\<close> rejects the colour token \<open>bogus\<close>, and every other call succeeds.
\<close>

definition demo_mpl :: "string list mpl" where
  "demo_mpl =
     \<lparr>begin_figure = Inr [],
      plot_curve = (\<lambda>ax ts ls. Inr (ax @ [''curve''])),
      axhline = (\<lambda>ax y c. Inr (ax @ [c])),
      fill_between = (\<lambda>ax ts ls thr cond c a.
         if c = ''bogus'' then Inl (LibraryError ''Invalid color'') else Inr (ax @ [c])),
      decorate = (\<lambda>ax. Inr ax),
      set_xaxis = (\<lambda>ax x. Inr ax),
      finish_layout = (\<lambda>ax. Inr ax),
      savefig = (\<lambda>ax path. None)\<rparr>"

definition demo_world :: "string list world" where
  "demo_world = \<lparr>printed = [], charts = [], files = {}\<rparr>"

definition demo_highlight :: "string \<Rightarrow> kwargs" where
  "demo_highlight c =
     Kwargs \<lparr>start_time = 0, end_time = 1, threshold = - 20, color = c, alpha = None,
             above_flag = Some True\<rparr>"

section \<open>The pipeline: \<^verbatim>\<open>main\<close>\<close>

text \<open>
  What \<^verbatim>\<open>wavfile.read\<close> returns besides the sample rate: a one-dimensional array of
  samples, or a two-dimensional one with a row of channel values per sample.
\<close>

datatype wav_data = Mono "real list" | Channels "real list list"

text \<open>
  The media and file libraries are external; their calls are parameters of the model.
  \<^item> \<open>video_has_audio\<close>: \<^verbatim>\<open>VideoFileClip(video_path)\<close>, then whether \<^verbatim>\<open>clip.audio\<close> is set;
  \<^item> \<open>write_audiofile\<close>: \<^verbatim>\<open>clip.audio.write_audiofile(audio_path, logger=None)\<close>, from the
    files on disk to the exception raised, if any, and the files on disk afterwards;
  \<^item> \<open>wavfile_read\<close>: \<^verbatim>\<open>wavfile.read(audio_path)\<close>;
  \<^item> \<open>path_join\<close>: \<^verbatim>\<open>os.path.join\<close>.
\<close>

record media =
  video_has_audio :: "string \<Rightarrow> error + bool"
  write_audiofile :: "string \<Rightarrow> string \<Rightarrow> string set \<Rightarrow> error option \<times> string set"
  wavfile_read :: "string \<Rightarrow> error + int \<times> wav_data"
  path_join :: "string \<Rightarrow> string \<Rightarrow> string"

definition extract_audio_from_video ::
  "media \<Rightarrow> string \<Rightarrow> string \<Rightarrow> 'ax world \<Rightarrow> (error + unit) \<times> 'ax world" where
  "extract_audio_from_video io video_path audio_path w =
     (case video_has_audio io video_path of
        Inl err \<Rightarrow> (Inl err, w)
      | Inr has_audio \<Rightarrow>
          if has_audio then
            (case write_audiofile io video_path audio_path (files w) of
               (Some err, on_disk) \<Rightarrow> (Inl err, w\<lparr>files := on_disk\<rparr>)
             | (None, on_disk) \<Rightarrow> (Inr (), w\<lparr>files := on_disk\<rparr>))
          else (Inl (ValueError ''No audio track found in the video file.''), w))"

text \<open>
  \<^verbatim>\<open>read_audio\<close>: a two-dimensional array is averaged over its channels
  (\<^verbatim>\<open>audio.mean(axis=1)\<close>).
\<close>

definition read_audio :: "media \<Rightarrow> string \<Rightarrow> error + int \<times> real list" where
  "read_audio io audio_path =
     (case wavfile_read io audio_path of
        Inl err \<Rightarrow> Inl err
      | Inr (sr, Mono samples) \<Rightarrow> Inr (sr, samples)
      | Inr (sr, Channels rows) \<Rightarrow> Inr (sr, map np_mean rows))"

definition AUDIO_TEMP_PATH :: string where
  "AUDIO_TEMP_PATH = ''temp_audio.wav''"

definition FRAME_DURATION :: real where
  "FRAME_DURATION = 1 / 10"

definition smooth_window :: int where
  "smooth_window = 3"

text \<open>The \<^verbatim>\<open>try\<close> block of \<^verbatim>\<open>main\<close>: the five stages in sequence.\<close>

definition main_body ::
  "media \<Rightarrow> 'ax mpl \<Rightarrow> string \<Rightarrow> string \<Rightarrow> kwargs list \<Rightarrow> 'ax world \<Rightarrow> (error + unit) \<times> 'ax world" where
  "main_body io m video_path save_path highlights w =
     (case extract_audio_from_video io video_path AUDIO_TEMP_PATH w of
        (Inl err, w1) \<Rightarrow> (Inl err, w1)
      | (Inr u, w1) \<Rightarrow>
          (case read_audio io AUDIO_TEMP_PATH of
             Inl err \<Rightarrow> (Inl err, w1)
           | Inr (sr, audio) \<Rightarrow>
               (case compute_loudness audio sr FRAME_DURATION of
                  Inl err \<Rightarrow> (Inl err, w1)
                | Inr (times_list, loudness_db) \<Rightarrow>
                    (case moving_average loudness_db smooth_window of
                       Inl err \<Rightarrow> (Inl err, w1)
                     | Inr loudness_db_smooth \<Rightarrow>
                         plot_loudness m times_list loudness_db_smooth save_path highlights w1))))"

text \<open>
  The \<^verbatim>\<open>finally\<close> block: if the temporary file exists, \<^verbatim>\<open>os.remove\<close> is called on it; its
  exception, if any, is printed. \<open>os_remove\<close> gives the exception that \<^verbatim>\<open>os.remove\<close> raises
  on a path, or \<open>None\<close> when it deletes the file.
\<close>

definition remove_temp :: "(string \<Rightarrow> error option) \<Rightarrow> 'ax world \<Rightarrow> 'ax world" where
  "remove_temp os_remove w =
     (if AUDIO_TEMP_PATH \<in> files w then
        (case os_remove AUDIO_TEMP_PATH of
           Some err \<Rightarrow> w\<lparr>printed := printed w @ [RemoveError err]\<rparr>
         | None \<Rightarrow> w\<lparr>files := files w - {AUDIO_TEMP_PATH}\<rparr>)
      else w)"

text \<open>
  \<^verbatim>\<open>main\<close>: the \<^verbatim>\<open>try\<close> block, the handler that prints \<^verbatim>\<open>Error in main\<close>, and the
  \<^verbatim>\<open>finally\<close> block. It returns nothing; its outcome is the world it leaves.
\<close>

definition main ::
  "media \<Rightarrow> 'ax mpl \<Rightarrow> (string \<Rightarrow> error option) \<Rightarrow> string \<Rightarrow> string \<Rightarrow> string \<Rightarrow> kwargs list
     \<Rightarrow> 'ax world \<Rightarrow> 'ax world" where
  "main io m os_remove video_path output_graph_path graph_name highlights w =
     (let save_path = path_join io output_graph_path graph_name in
      case main_body io m video_path save_path highlights w of
        (Inl err, w1) \<Rightarrow> remove_temp os_remove (w1\<lparr>printed := printed w1 @ [MainError err]\<rparr>)
      | (Inr u, w1) \<Rightarrow> remove_temp os_remove w1)"

text \<open>Stand-ins for the media library: a video without an audio track, and one with.\<close>

definition silent_video :: media where
  "silent_video =
     \<lparr>video_has_audio = (\<lambda>path. Inr False),
      write_audiofile = (\<lambda>video audio on_disk. (None, insert audio on_disk)),
      wavfile_read = (\<lambda>path. Inl (LibraryError ''No such file'')),
      path_join = (\<lambda>dir name. dir @ ''/'' @ name)\<rparr>"

definition demo_video :: media where
  "demo_video =
     \<lparr>video_has_audio = (\<lambda>path. Inr True),
      write_audiofile = (\<lambda>video audio on_disk. (None, insert audio on_disk)),
      wavfile_read = (\<lambda>path. Inr (10, Mono [0, 0, 0])),
      path_join = (\<lambda>dir name. dir @ ''/'' @ name)\<rparr>"

section \<open>Properties of the loudness analyser\<close>

subsection \<open>Slices and the frame loop\<close>

lemma py_slice_nonneg:
  assumes "0 \<le> a" "0 \<le> b"
  shows "py_slice xs a b = drop (nat a) (take (nat b) xs)"
proof -
  have t: "take (nat (min b (int (length xs)))) xs = take (nat b) xs"
    using assms by (cases "b \<le> int (length xs)") (simp_all add: min_def)
  have d: "drop (nat (min a (int (length xs)))) ys = drop (nat a) ys" if "length ys \<le> length xs" for ys :: "'a list"
    using assms that by (cases "a \<le> int (length xs)") (simp_all add: min_def)
  show ?thesis
    using assms by (simp add: py_slice_def py_bound_def Let_def t d)
qed

lemma frame_slice:
  "py_slice xs (int i * int fs) (min ((int i + 1) * int fs) (int (length xs))) = spec_frame xs fs i"
proof -
  have a: "nat (int i * int fs) = i * fs"
    by (simp add: nat_mult_distrib)
  have "(int i + 1) * int fs = int ((i + 1) * fs)"
    by (simp add: algebra_simps)
  then have "min ((int i + 1) * int fs) (int (length xs)) = int (min ((i + 1) * fs) (length xs))"
    by (simp only: of_nat_min)
  then have b: "nat (min ((int i + 1) * int fs) (int (length xs))) = min ((i + 1) * fs) (length xs)"
    by simp
  show ?thesis
    unfolding spec_frame_def
    by (subst py_slice_nonneg) (simp_all only: a b, simp_all)
qed

lemma spec_frame_nonempty:
  assumes "0 < fs" "i * fs < length xs"
  shows "spec_frame xs fs i \<noteq> []"
  using assms by (simp add: spec_frame_def)

lemma loudness_loop_closed:
  assumes "0 < fs" "sr \<noteq> 0" "\<forall>i\<in>set ns. i * fs < length audio"
  shows "loudness_loop audio sr (int fs) ns (ts, ds) =
         Inr (ts @ map (\<lambda>i. real (i * fs) / real_of_int sr) ns,
              ds @ map (\<lambda>i. rms_to_db (frame_rms (spec_frame audio fs i))) ns)"
  using assms(3)
proof (induction ns arbitrary: ts ds)
  case Nil
  then show ?case by simp
next
  case (Cons i ns)
  have ne: "spec_frame audio fs i \<noteq> []"
    using Cons.prems assms(1) by (simp add: spec_frame_nonempty)
  have rest: "\<forall>i\<in>set ns. i * fs < length audio"
    using Cons.prems by simp
  show ?case
    using ne assms(2) Cons.IH[OF rest]
    by (simp add: frame_slice Let_def)
qed

lemma py_int_zero_rate: "py_int (real_of_int 0 * fd) = 0"
  by (simp add: py_int_def)

lemma frame_index_in_range:
  assumes "0 < fs" "i < nat \<lceil>real n / real fs\<rceil>"
  shows "i * fs < n"
proof -
  have "int i < \<lceil>real n / real fs\<rceil>"
    using assms(2) by simp
  then have "real i < real n / real fs"
    by (simp add: less_ceiling_iff)
  then have "real i * real fs < real n"
    using assms(1) by (simp add: pos_less_divide_eq)
  then have "real (i * fs) < real n"
    by simp
  then show ?thesis
    by (simp only: of_nat_less_iff)
qed

lemma compute_loudness_closed:
  assumes "1 \<le> py_int (real_of_int sr * fd)"
  shows "compute_loudness audio sr fd =
           Inr (map (\<lambda>i. real (i * nat (py_int (real_of_int sr * fd))) / real_of_int sr)
                  [0..<nat \<lceil>real (length audio) / real (nat (py_int (real_of_int sr * fd)))\<rceil>],
                map (\<lambda>i. rms_to_db (frame_rms (spec_frame audio (nat (py_int (real_of_int sr * fd))) i)))
                  [0..<nat \<lceil>real (length audio) / real (nat (py_int (real_of_int sr * fd)))\<rceil>])"
proof -
  define fs where "fs = nat (py_int (real_of_int sr * fd))"
  have fs_int: "py_int (real_of_int sr * fd) = int fs" and fs_pos: "0 < fs"
    using assms by (simp_all add: fs_def)
  have sr: "sr \<noteq> 0"
    using assms py_int_zero_rate[of fd] by auto
  have rng: "\<forall>i\<in>set [0..<nat \<lceil>real (length audio) / real fs\<rceil>]. i * fs < length audio"
    using frame_index_in_range[OF fs_pos] by simp
  have "compute_loudness_body audio sr fd =
          loudness_loop audio sr (int fs) [0..<nat \<lceil>real (length audio) / real fs\<rceil>] ([], [])"
    using fs_pos by (simp add: compute_loudness_body_def fs_int Let_def)
  also have "\<dots> = Inr (map (\<lambda>i. real (i * fs) / real_of_int sr) [0..<nat \<lceil>real (length audio) / real fs\<rceil>],
                        map (\<lambda>i. rms_to_db (frame_rms (spec_frame audio fs i))) [0..<nat \<lceil>real (length audio) / real fs\<rceil>])"
    using loudness_loop_closed[OF fs_pos sr rng, of "[]" "[]"] by simp
  finally show ?thesis
    by (simp add: compute_loudness_def fs_def)
qed

lemma compute_loudness_zero_frame:
  assumes "py_int (real_of_int sr * fd) = 0"
  shows "compute_loudness audio sr fd = Inl (RuntimeError ''Error in compute_loudness'' ZeroDivisionError)"
  using assms by (simp add: compute_loudness_def compute_loudness_body_def)

lemma compute_loudness_negative_frame:
  assumes "py_int (real_of_int sr * fd) < 0"
  shows "compute_loudness audio sr fd = Inr ([], [])"
proof -
  have "real (length audio) / real_of_int (py_int (real_of_int sr * fd)) \<le> 0"
    using assms by (simp add: divide_nonneg_neg)
  then have "\<lceil>real (length audio) / real_of_int (py_int (real_of_int sr * fd))\<rceil> \<le> 0"
    by (simp add: ceiling_le_iff)
  then show ?thesis
    using assms by (simp add: compute_loudness_def compute_loudness_body_def Let_def)
qed

subsection \<open>Frame size\<close>

text \<open>
  Claim C2 as stated fails: at sample rate 1 and frame duration 3/4 the rounded frame
  size is 1, yet the source truncates to 0 and the call fails.
\<close>

theorem frame_size_rounding_counterexample:
  "1 \<le> spec_frame_size 1 (3 / 4) \<and>
   compute_loudness [1] 1 (3 / 4) = Inl (RuntimeError ''Error in compute_loudness'' ZeroDivisionError)"
  by (simp add: spec_frame_size_def round_def compute_loudness_def compute_loudness_body_def py_int_def)

text \<open>
  Claim C2, as amended: the frame size is \<^verbatim>\<open>int(sr * frame_duration)\<close>, the truncation
  of the product toward zero. \<^verbatim>\<open>compute_loudness\<close> fails, with the \<^verbatim>\<open>RuntimeError\<close> that
  wraps the \<^verbatim>\<open>ZeroDivisionError\<close>, when that frame size is zero; it returns a series
  whenever the frame size is at least one; a negative frame size gives the empty series.
\<close>

theorem compute_loudness_frame_size:
  "(py_int (real_of_int sr * fd) = 0 \<longrightarrow>
      compute_loudness audio sr fd = Inl (RuntimeError ''Error in compute_loudness'' ZeroDivisionError)) \<and>
   (1 \<le> py_int (real_of_int sr * fd) \<longrightarrow>
      (\<exists>series. compute_loudness audio sr fd = Inr series)) \<and>
   (py_int (real_of_int sr * fd) < 0 \<longrightarrow> compute_loudness audio sr fd = Inr ([], [])) \<and>
   (0 \<le> real_of_int sr * fd \<longrightarrow>
      real_of_int (py_int (real_of_int sr * fd)) \<le> real_of_int sr * fd \<and>
      real_of_int sr * fd < real_of_int (py_int (real_of_int sr * fd)) + 1)"
proof -
  have a: "py_int (real_of_int sr * fd) = 0 \<longrightarrow>
      compute_loudness audio sr fd = Inl (RuntimeError ''Error in compute_loudness'' ZeroDivisionError)"
    by (simp add: compute_loudness_zero_frame)
  have b: "1 \<le> py_int (real_of_int sr * fd) \<longrightarrow> (\<exists>series. compute_loudness audio sr fd = Inr series)"
    by (simp add: compute_loudness_closed)
  have c: "py_int (real_of_int sr * fd) < 0 \<longrightarrow> compute_loudness audio sr fd = Inr ([], [])"
    by (simp add: compute_loudness_negative_frame)
  have d: "0 \<le> real_of_int sr * fd \<longrightarrow>
      real_of_int (py_int (real_of_int sr * fd)) \<le> real_of_int sr * fd \<and>
      real_of_int sr * fd < real_of_int (py_int (real_of_int sr * fd)) + 1"
    by (simp add: py_int_def)
  from a b c d show ?thesis by blast
qed

text \<open>The four cases of the theorem at concrete inputs.\<close>

theorem compute_loudness_frame_size_witness:
  "compute_loudness [0, 0] 1 (1 / 2) = Inl (RuntimeError ''Error in compute_loudness'' ZeroDivisionError) \<and>
   (\<exists>series. compute_loudness [0, 0] 3 (1 / 2) = Inr series) \<and>
   compute_loudness [0, 0] 3 (- 1 / 2) = Inr ([], []) \<and>
   real_of_int (py_int (real_of_int 3 * (1 / 2))) \<le> real_of_int 3 * (1 / 2)"
proof -
  have z: "py_int (real_of_int 1 * (1 / 2)) = 0" by (simp add: py_int_def)
  have p: "1 \<le> py_int (real_of_int 3 * (1 / 2))" by (simp add: py_int_def)
  have n: "py_int (real_of_int 3 * (- 1 / 2)) < 0" by (simp add: py_int_def)
  have q: "(0::real) \<le> real_of_int 3 * (1 / 2)" by simp
  show ?thesis
    using compute_loudness_frame_size[of 1 "1 / 2" "[0, 0]"] compute_loudness_frame_size[of 3 "1 / 2" "[0, 0]"] compute_loudness_frame_size[of 3 "- 1 / 2" "[0, 0]"] z p n q
    by blast
qed

subsection \<open>Frames\<close>

lemma spec_frame_nth:
  "spec_frame xs fs i = map ((!) xs) [i * fs..<min ((i + 1) * fs) (length xs)]"
proof -
  have "map ((!) xs) [0..<min ((i + 1) * fs) (length xs)]
          = take (min ((i + 1) * fs) (length xs)) (map ((!) xs) [0..<length xs])"
    by (simp add: take_map)
  then have "take (min ((i + 1) * fs) (length xs)) xs = map ((!) xs) [0..<min ((i + 1) * fs) (length xs)]"
    by (simp only: map_nth)
  then have "spec_frame xs fs i = drop (i * fs) (map ((!) xs) [0..<min ((i + 1) * fs) (length xs)])"
    by (simp add: spec_frame_def)
  then show ?thesis
    by (simp add: drop_map)
qed

lemma spec_frame_subset: "set (spec_frame xs fs i) \<subseteq> set xs"
  unfolding spec_frame_def
  using set_drop_subset set_take_subset by fastforce

lemma compute_loudness_cases:
  assumes "compute_loudness audio sr fd = Inr (ts, dbs)"
  shows "(1 \<le> py_int (real_of_int sr * fd) \<and>
          ts = map (\<lambda>i. real (i * nat (py_int (real_of_int sr * fd))) / real_of_int sr)
                  [0..<nat \<lceil>real (length audio) / real (nat (py_int (real_of_int sr * fd)))\<rceil>] \<and>
          dbs = map (\<lambda>i. rms_to_db (frame_rms (spec_frame audio (nat (py_int (real_of_int sr * fd))) i)))
                  [0..<nat \<lceil>real (length audio) / real (nat (py_int (real_of_int sr * fd)))\<rceil>])
         \<or> (py_int (real_of_int sr * fd) < 0 \<and> ts = [] \<and> dbs = [])"
proof -
  consider "py_int (real_of_int sr * fd) = 0" | "1 \<le> py_int (real_of_int sr * fd)"
    | "py_int (real_of_int sr * fd) < 0"
    by linarith
  then show ?thesis
  proof cases
    case 1
    then show ?thesis
      using assms by (simp add: compute_loudness_zero_frame)
  next
    case 2
    then show ?thesis
      using assms compute_loudness_closed[OF 2, of audio] by simp
  next
    case 3
    then show ?thesis
      using assms by (simp add: compute_loudness_negative_frame)
  qed
qed

text \<open>
  Claim C4: for a frame size of at least one, \<^verbatim>\<open>compute_loudness\<close> returns
  \<open>ceil (len samples / frame_size)\<close> entries in \<^verbatim>\<open>times\<close> and as many in \<^verbatim>\<open>loudness_db\<close>;
  no frame is empty, so none is skipped, and entry \<open>i\<close> is computed from the samples at
  indices \<open>[i * frame_size, min ((i + 1) * frame_size) (len samples))\<close>.
\<close>

theorem compute_loudness_frame_count:
  assumes "1 \<le> py_int (real_of_int sr * fd)"
  shows "\<exists>ts dbs. compute_loudness audio sr fd = Inr (ts, dbs) \<and>
           length ts = nat \<lceil>real (length audio) / real_of_int (py_int (real_of_int sr * fd))\<rceil> \<and>
           length dbs = length ts \<and>
           (\<forall>i<length dbs.
              spec_frame audio (nat (py_int (real_of_int sr * fd))) i \<noteq> [] \<and>
              spec_frame audio (nat (py_int (real_of_int sr * fd))) i =
                map ((!) audio)
                  [i * nat (py_int (real_of_int sr * fd))..<
                   min ((i + 1) * nat (py_int (real_of_int sr * fd))) (length audio)] \<and>
              dbs ! i = rms_to_db (frame_rms (spec_frame audio (nat (py_int (real_of_int sr * fd))) i)))"
proof -
  define fs where "fs = nat (py_int (real_of_int sr * fd))"
  have fs_pos: "0 < fs" and fs_int: "py_int (real_of_int sr * fd) = int fs"
    using assms by (simp_all add: fs_def)
  define N where "N = nat \<lceil>real (length audio) / real fs\<rceil>"
  have closed: "compute_loudness audio sr fd =
      Inr (map (\<lambda>i. real (i * fs) / real_of_int sr) [0..<N],
           map (\<lambda>i. rms_to_db (frame_rms (spec_frame audio fs i))) [0..<N])"
    using compute_loudness_closed[OF assms, of audio] by (simp add: fs_def N_def)
  have ne: "spec_frame audio fs i \<noteq> []" if "i < N" for i
    using frame_index_in_range[OF fs_pos, of i "length audio"] that fs_pos
    by (simp add: N_def spec_frame_nonempty)
  show ?thesis
    using closed ne spec_frame_nth[of audio fs] by (simp add: fs_int N_def flip: fs_def)
qed

text \<open>
Three samples in frames of two samples: two frames.
\<close>

theorem compute_loudness_frame_count_witness:
  "\<exists>ts dbs. compute_loudness [0, 0, 0] 2 1 = Inr (ts, dbs) \<and> length ts = 2 \<and> length dbs = length ts"
proof -
  have p: "1 \<le> py_int (real_of_int 2 * 1)" by (simp add: py_int_def)
  have c: "nat \<lceil>real (length [0::real, 0, 0]) / real_of_int (py_int (real_of_int 2 * 1))\<rceil> = 2"
    by (simp add: py_int_def)
  show ?thesis
    using compute_loudness_frame_count[OF p, of "[0, 0, 0]"] unfolding c by blast
qed

subsection \<open>Decibel conversion\<close>

lemma frame_rms_zeros:
  assumes "\<forall>s\<in>set frame. s = 0"
  shows "frame_rms frame = 0"
proof -
  have "sum_list (map (\<lambda>s. s ^ 2) frame) = 0"
    using assms by (induction frame) simp_all
  then show ?thesis
    by (simp add: frame_rms_def np_mean_def)
qed

text \<open>
  Claim C3: every entry of the returned series is the decibel value of its frame:
  \<open>- 100\<close> when the frame's RMS is below \<open>1e-10\<close>, and \<open>20 * log10 (rms / 2 ^ 15)\<close>
  otherwise. A waveform of zeros gives \<open>- 100\<close> in every entry.
\<close>

theorem compute_loudness_db_rule:
  assumes "compute_loudness audio sr fd = Inr (ts, dbs)"
  shows "(\<forall>i<length dbs.
            dbs ! i =
              (if frame_rms (spec_frame audio (nat (py_int (real_of_int sr * fd))) i) < 1 / 10 ^ 10
               then - 100
               else 20 * log 10 (frame_rms (spec_frame audio (nat (py_int (real_of_int sr * fd))) i) / 2 ^ 15))) \<and>
         ((\<forall>s\<in>set audio. s = 0) \<longrightarrow> (\<forall>d\<in>set dbs. d = - 100))"
proof -
  define fs where "fs = nat (py_int (real_of_int sr * fd))"
  define N where "N = nat \<lceil>real (length audio) / real fs\<rceil>"
  have dbs: "dbs = map (\<lambda>i. rms_to_db (frame_rms (spec_frame audio fs i))) [0..<N] \<or> dbs = []"
    using compute_loudness_cases[OF assms] by (auto simp: fs_def N_def)
  have rule: "\<forall>i<length dbs. dbs ! i = rms_to_db (frame_rms (spec_frame audio fs i))"
    using dbs by auto
  have zero: "\<forall>d\<in>set dbs. d = - 100" if z: "\<forall>s\<in>set audio. s = 0"
  proof -
    have "frame_rms (spec_frame audio fs i) = 0" for i
      using z spec_frame_subset[of audio fs i] by (intro frame_rms_zeros) blast
    then have "rms_to_db (frame_rms (spec_frame audio fs i)) = - 100" for i
      by (simp add: rms_to_db_def)
    then show ?thesis
      using dbs by auto
  qed
  show ?thesis
    using rule zero by (simp add: rms_to_db_def flip: fs_def)
qed

text \<open>
A silent waveform of three samples at two samples per frame.
\<close>

theorem compute_loudness_db_rule_witness:
  "compute_loudness [0, 0, 0] 2 1 = Inr ([0, 1], [- 100, - 100]) \<and>
   [- 100, - 100 :: real] ! 1 =
      (if frame_rms (spec_frame [0, 0, 0] (nat (py_int (real_of_int 2 * 1))) 1) < 1 / 10 ^ 10
       then - 100
       else 20 * log 10 (frame_rms (spec_frame [0, 0, 0] (nat (py_int (real_of_int 2 * 1))) 1) / 2 ^ 15))"
proof -
  have run: "compute_loudness [0, 0, 0] 2 1 = Inr ([0, 1], [- 100, - 100])"
    by (simp add: compute_loudness_def compute_loudness_body_def py_int_def py_slice_def py_bound_def
        frame_rms_def np_mean_def rms_to_db_def upt_rec)
  have len: "1 < length [- 100, - 100 :: real]"
    by simp
  show ?thesis
    using compute_loudness_db_rule[OF run, THEN conjunct1, THEN spec, THEN mp, OF len] run by blast
qed

subsection \<open>Time stamps\<close>

text \<open>
  Claim C5 as stated fails: at sample rate 3 and frame duration 1/2 the frame size is 1
  and consecutive time stamps are 1/3 apart, not 1/2.
\<close>

theorem times_spacing_counterexample:
  "compute_loudness [0, 0] 3 (1 / 2) = Inr ([0, 1 / 3], [- 100, - 100]) \<and>
   [0, 1 / 3 :: real] ! 1 - [0, 1 / 3 :: real] ! 0 \<noteq> 1 / 2"
  by (simp add: compute_loudness_def compute_loudness_body_def py_int_def py_slice_def py_bound_def
        frame_rms_def np_mean_def rms_to_db_def upt_rec)

text \<open>
  Claim C5, as amended: for a positive sample rate, \<open>times[i]\<close> is the start index
  \<open>i * frame_size\<close> of frame \<open>i\<close> divided by the sample rate; the sequence is strictly
  increasing and consecutive entries are exactly \<open>frame_size / sample_rate\<close> apart, which
  is \<open>frame_duration\<close> when \<open>sample_rate * frame_duration\<close> is a whole number.
\<close>

theorem compute_loudness_times:
  assumes "0 < sr" and "compute_loudness audio sr fd = Inr (ts, dbs)"
  shows "(\<forall>i<length ts. ts ! i = real (i * nat (py_int (real_of_int sr * fd))) / real_of_int sr) \<and>
         (\<forall>i. i + 1 < length ts \<longrightarrow>
            ts ! (i + 1) - ts ! i = real_of_int (py_int (real_of_int sr * fd)) / real_of_int sr) \<and>
         (\<forall>i j. i < j \<and> j < length ts \<longrightarrow> ts ! i < ts ! j) \<and>
         (real_of_int sr * fd \<in> \<int> \<longrightarrow>
            real_of_int (py_int (real_of_int sr * fd)) / real_of_int sr = fd)"
proof -
  define fs where "fs = nat (py_int (real_of_int sr * fd))"
  define N where "N = nat \<lceil>real (length audio) / real fs\<rceil>"
  have cases: "(1 \<le> py_int (real_of_int sr * fd) \<and> ts = map (\<lambda>i. real (i * fs) / real_of_int sr) [0..<N])
               \<or> ts = []"
    using compute_loudness_cases[OF assms(2)] by (auto simp: fs_def N_def)
  have start: "\<forall>i<length ts. ts ! i = real (i * fs) / real_of_int sr"
    using cases by auto
  have fs_int: "real_of_int (py_int (real_of_int sr * fd)) = real fs" if "ts \<noteq> []"
    using cases that by (auto simp: fs_def)
  have fs_pos: "0 < fs" if "ts \<noteq> []"
    using cases that by (auto simp: fs_def)
  have step: "ts ! (i + 1) - ts ! i = real_of_int (py_int (real_of_int sr * fd)) / real_of_int sr"
    if "i + 1 < length ts" for i
  proof -
    have ne: "ts \<noteq> []" using that by auto
    have "ts ! (i + 1) - ts ! i = real ((i + 1) * fs) / real_of_int sr - real (i * fs) / real_of_int sr"
      using start that by (simp add: algebra_simps)
    also have "\<dots> = real fs / real_of_int sr"
      by (simp add: algebra_simps diff_divide_distrib[symmetric] add_divide_distrib)
    finally show ?thesis
      by (simp add: fs_int[OF ne])
  qed
  have mono: "ts ! i < ts ! j" if "i < j \<and> j < length ts" for i j
  proof -
    have ne: "ts \<noteq> []" using that by auto
    have "i * fs < j * fs"
      using that fs_pos[OF ne] by simp
    then have "real (i * fs) < real (j * fs)"
      by (simp only: of_nat_less_iff)
    then have "real (i * fs) / real_of_int sr < real (j * fs) / real_of_int sr"
      using assms(1) by (simp add: divide_strict_right_mono)
    then show ?thesis
      using start that by simp
  qed
  have exact: "real_of_int (py_int (real_of_int sr * fd)) / real_of_int sr = fd"
    if "real_of_int sr * fd \<in> \<int>"
  proof -
    have "real_of_int (py_int (real_of_int sr * fd)) = real_of_int sr * fd"
      using that by (auto simp: py_int_def elim!: Ints_cases)
    then show ?thesis
      using assms(1) by simp
  qed
  show ?thesis
    using start step mono exact unfolding fs_def by blast
qed

text \<open>
Sample rate 2, frame duration 1: the time stamps 0 and 1.
\<close>

theorem compute_loudness_times_witness:
  "compute_loudness [0, 0, 0] 2 1 = Inr ([0, 1], [- 100, - 100]) \<and>
   [0, 1 :: real] ! (0 + 1) - [0, 1 :: real] ! 0 = real_of_int (py_int (real_of_int 2 * 1)) / real_of_int 2 \<and>
   [0, 1 :: real] ! 0 < [0, 1 :: real] ! 1 \<and>
   real_of_int (py_int (real_of_int 2 * 1)) / real_of_int 2 = 1"
proof -
  have run: "compute_loudness [0, 0, 0] 2 1 = Inr ([0, 1], [- 100, - 100])"
    by (simp add: compute_loudness_def compute_loudness_body_def py_int_def py_slice_def py_bound_def
        frame_rms_def np_mean_def rms_to_db_def upt_rec)
  have pos: "(0::int) < 2" by simp
  have len: "0 + 1 < length [0, 1 :: real]" by simp
  have ord: "(0::nat) < 1 \<and> 1 < length [0, 1 :: real]" by simp
  have whole: "real_of_int 2 * (1::real) \<in> \<int>" by simp
  note facts = compute_loudness_times[OF pos run]
  from facts have a: "[0, 1 :: real] ! (0 + 1) - [0, 1 :: real] ! 0 = real_of_int (py_int (real_of_int 2 * 1)) / real_of_int 2"
    using len by blast
  from facts have b: "[0, 1 :: real] ! 0 < [0, 1 :: real] ! 1"
    using ord by blast
  from facts have c: "real_of_int (py_int (real_of_int 2 * 1)) / real_of_int 2 = 1"
    using whole by blast
  show ?thesis
    using run a b c by blast
qed

subsection \<open>Range of the loudness values\<close>

lemma sum_squares_bound:
  assumes "\<forall>s\<in>set frame. \<bar>s\<bar> \<le> B"
  shows "sum_list (map (\<lambda>s. s ^ 2) frame) \<le> real (length frame) * B ^ 2"
  using assms
proof (induction frame)
  case Nil
  then show ?case by simp
next
  case (Cons s frame)
  have "\<bar>s\<bar> \<le> B" using Cons.prems by simp
  then have "\<bar>s\<bar> ^ 2 \<le> B ^ 2"
    by (intro power_mono) simp_all
  then have "s ^ 2 \<le> B ^ 2" by simp
  moreover have "sum_list (map (\<lambda>s. s ^ 2) frame) \<le> real (length frame) * B ^ 2"
    using Cons by simp
  ultimately show ?case
    by (simp add: algebra_simps)
qed

lemma frame_rms_bound:
  assumes "frame \<noteq> []" "\<forall>s\<in>set frame. \<bar>s\<bar> \<le> B"
  shows "frame_rms frame \<le> B"
proof -
  have len: "0 < real (length frame)" using assms(1) by simp
  have B: "0 \<le> B"
  proof -
    obtain s where "s \<in> set frame" using assms(1) by (cases frame) auto
    then have "\<bar>s\<bar> \<le> B" using assms(2) by blast
    then show ?thesis by linarith
  qed
  have "np_mean (map (\<lambda>s. s ^ 2) frame) \<le> B ^ 2"
    using sum_squares_bound[OF assms(2)] len
    by (simp add: np_mean_def pos_divide_le_eq mult.commute)
  then have "sqrt (np_mean (map (\<lambda>s. s ^ 2) frame)) \<le> sqrt (B ^ 2)"
    by (simp only: real_sqrt_le_iff)
  then show ?thesis
    using B by (simp add: frame_rms_def)
qed

lemma rms_to_db_upper:
  assumes "rms \<le> 2 ^ 15"
  shows "rms_to_db rms \<le> 0"
proof (cases "rms < 1 / 10 ^ 10")
  case True
  then show ?thesis by (simp add: rms_to_db_def)
next
  case False
  then have pos: "0 < rms / 2 ^ 15" by (simp add: not_less)
  have "rms / 2 ^ 15 \<le> 1" using assms by simp
  then have "log 10 (rms / 2 ^ 15) \<le> 0"
    using pos by (simp only: log_le_zero_cancel_iff[of 10, simplified])
  then show ?thesis
    using False by (simp add: rms_to_db_def)
qed

lemma rms_to_db_lower: "- 300 < rms_to_db rms"
proof (cases "rms < 1 / 10 ^ 10")
  case True
  then show ?thesis by (simp add: rms_to_db_def)
next
  case False
  then have ge: "1 / 10 ^ 10 \<le> rms" by simp
  have "(1::real) / 10 ^ 15 < (1 / 10 ^ 10) / 2 ^ 15" by simp
  also have "\<dots> \<le> rms / 2 ^ 15" using ge by (simp add: divide_right_mono)
  finally have "(1::real) / 10 ^ 15 < rms / 2 ^ 15" .
  moreover have "(10::real) powr (- 15) = 1 / 10 ^ 15"
    by (simp add: powr_minus_divide)
  ultimately have lt: "(10::real) powr (- 15) < rms / 2 ^ 15"
    by (simp only:)
  then have pos: "0 < rms / 2 ^ 15"
    by (smt (verit) powr_gt_zero)
  have "- 15 < log 10 (rms / 2 ^ 15)"
    using lt pos by (simp only: less_log_iff[of 10, simplified])
  then show ?thesis
    using False by (simp add: rms_to_db_def)
qed

lemma rms_to_db_below_floor:
  assumes "1 / 10 ^ 10 \<le> rms" "rms < 2 ^ 15 / 10 ^ 5"
  shows "rms_to_db rms < - 100"
proof -
  have pos: "0 < rms / 2 ^ 15"
    using assms(1) by (simp add: field_simps)
  have "rms / 2 ^ 15 < 1 / 10 ^ 5"
    using assms(2) by (simp add: field_simps)
  moreover have "(10::real) powr (- 5) = 1 / 10 ^ 5"
    by (simp add: powr_minus_divide)
  ultimately have "rms / 2 ^ 15 < 10 powr (- 5)"
    by (simp only:)
  then have "log 10 (rms / 2 ^ 15) < - 5"
    using pos by (simp only: log_less_iff[of 10, simplified])
  then show ?thesis
    using assms(1) by (simp add: rms_to_db_def)
qed

lemma rms_to_db_at_least_floor:
  assumes "2 ^ 15 / 10 ^ 5 \<le> rms"
  shows "- 100 \<le> rms_to_db rms"
proof -
  have big: "\<not> rms < 1 / 10 ^ 10"
    using assms by simp
  have pos: "0 < rms / 2 ^ 15"
    using assms by (simp add: field_simps)
  have "1 / 10 ^ 5 \<le> rms / 2 ^ 15"
    using assms by (simp add: field_simps)
  moreover have "(10::real) powr (- 5) = 1 / 10 ^ 5"
    by (simp add: powr_minus_divide)
  ultimately have "10 powr (- 5) \<le> rms / 2 ^ 15"
    by (simp only:)
  then have "- 5 \<le> log 10 (rms / 2 ^ 15)"
    using pos by (simp only: le_log_iff[of 10, simplified])
  then show ?thesis
    using big by (simp add: rms_to_db_def)
qed

text \<open>
  A quiet frame: a hundred samples, one of them 1 and the others 0, at a hundred samples
  per second.
\<close>

lemma quiet_frame_rms: "frame_rms (1 # replicate 99 0) = 1 / 10"
proof -
  have "sqrt (1 / 100) = 1 / 10"
    by (rule real_sqrt_unique) (simp_all add: power2_eq_square)
  moreover have "sum_list (replicate 99 (0::real)) = 0"
    by (simp add: sum_list_replicate)
  ultimately show ?thesis
    by (simp add: frame_rms_def np_mean_def)
qed

lemma quiet_frame_whole:
  "spec_frame (1 # replicate 99 (0::real)) (nat (py_int (real_of_int 100 * 1))) 0 = 1 # replicate 99 0"
  by (simp add: spec_frame_def py_int_def)

lemma quiet_frame_run:
  "compute_loudness (1 # replicate 99 0) 100 1 = Inr ([0], [20 * log 10 (1 / 327680)])"
proof -
  have p: "1 \<le> py_int (real_of_int 100 * 1)" by (simp add: py_int_def)
  have frame: "spec_frame (1 # replicate 99 (0::real)) 100 0 = 1 # replicate 99 0"
    by (simp add: spec_frame_def)
  have db: "rms_to_db (1 / 10) = 20 * log 10 (1 / 327680)"
    by (simp add: rms_to_db_def)
  show ?thesis
    using compute_loudness_closed[OF p, of "1 # replicate 99 0"]
    by (simp add: py_int_def frame quiet_frame_rms db)
qed

text \<open>
  Claim C1 as stated fails: one frame of a hundred 16-bit samples, a single 1 among
  zeros, has RMS 1/10, which is not below \<open>1e-10\<close>, and its loudness
  \<open>20 * log10 (1 / 327680)\<close> lies below \<open>- 100\<close>.
\<close>

theorem loudness_below_floor_counterexample:
  "compute_loudness (1 # replicate 99 0) 100 1 = Inr ([0], [20 * log 10 (1 / 327680)]) \<and>
   20 * log 10 (1 / 327680) < (- 100 :: real)"
proof -
  have "(1::real) / 327680 < 10 powr (- 5)"
    by (simp add: powr_minus_divide)
  then have "log 10 (1 / 327680) < (- 5 :: real)"
    by (simp only: log_less_iff[of 10 "1 / 327680" "- 5", simplified])
  then have low: "20 * log 10 (1 / 327680) < (- 100 :: real)"
    by simp
  show ?thesis
    using quiet_frame_run low by blast
qed

text \<open>
  Claim C1, as amended: with every sample of magnitude at most \<open>2 ^ 15\<close>, each entry of
  the loudness series is \<open>- 100\<close> when the RMS of its frame is below \<open>1e-10\<close> and
  \<open>20 * log10 (rms / 2 ^ 15)\<close> otherwise; it is at most 0 and above \<open>- 300\<close>. The floor
  \<open>- 100\<close> is not a lower bound: every frame with \<open>1e-10 \<le> rms < 2 ^ 15 * 1e-5\<close> has a
  value below \<open>- 100\<close>, and every frame with \<open>rms \<ge> 2 ^ 15 * 1e-5\<close> a value of at least
  \<open>- 100\<close>.
\<close>

theorem compute_loudness_db_range:
  assumes "compute_loudness audio sr fd = Inr (ts, dbs)"
    and "\<forall>s\<in>set audio. \<bar>s\<bar> \<le> 2 ^ 15"
  shows "\<forall>i<length dbs.
           dbs ! i =
             (if frame_rms (spec_frame audio (nat (py_int (real_of_int sr * fd))) i) < 1 / 10 ^ 10
              then - 100
              else 20 * log 10 (frame_rms (spec_frame audio (nat (py_int (real_of_int sr * fd))) i) / 2 ^ 15)) \<and>
           - 300 < dbs ! i \<and> dbs ! i \<le> 0 \<and>
           (1 / 10 ^ 10 \<le> frame_rms (spec_frame audio (nat (py_int (real_of_int sr * fd))) i) \<and>
            frame_rms (spec_frame audio (nat (py_int (real_of_int sr * fd))) i) < 2 ^ 15 / 10 ^ 5
              \<longrightarrow> dbs ! i < - 100) \<and>
           (2 ^ 15 / 10 ^ 5 \<le> frame_rms (spec_frame audio (nat (py_int (real_of_int sr * fd))) i)
              \<longrightarrow> - 100 \<le> dbs ! i)"
proof -
  define fs where "fs = nat (py_int (real_of_int sr * fd))"
  define N where "N = nat \<lceil>real (length audio) / real fs\<rceil>"
  have cases: "(1 \<le> py_int (real_of_int sr * fd) \<and>
                 dbs = map (\<lambda>i. rms_to_db (frame_rms (spec_frame audio fs i))) [0..<N]) \<or> dbs = []"
    using compute_loudness_cases[OF assms(1)] by (auto simp: fs_def N_def)
  have "dbs ! i =
          (if frame_rms (spec_frame audio fs i) < 1 / 10 ^ 10 then - 100
           else 20 * log 10 (frame_rms (spec_frame audio fs i) / 2 ^ 15)) \<and>
        - 300 < dbs ! i \<and> dbs ! i \<le> 0 \<and>
        (1 / 10 ^ 10 \<le> frame_rms (spec_frame audio fs i) \<and>
         frame_rms (spec_frame audio fs i) < 2 ^ 15 / 10 ^ 5 \<longrightarrow> dbs ! i < - 100) \<and>
        (2 ^ 15 / 10 ^ 5 \<le> frame_rms (spec_frame audio fs i) \<longrightarrow> - 100 \<le> dbs ! i)"
    if i: "i < length dbs" for i
  proof -
    have ne: "dbs \<noteq> []" using i by auto
    then have fs_pos: "0 < fs" and dbs: "dbs = map (\<lambda>i. rms_to_db (frame_rms (spec_frame audio fs i))) [0..<N]"
      using cases by (auto simp: fs_def)
    have iN: "i < N" using i dbs by simp
    have val: "dbs ! i = rms_to_db (frame_rms (spec_frame audio fs i))"
      using dbs iN by simp
    have "i * fs < length audio"
      using frame_index_in_range[OF fs_pos, of i "length audio"] iN by (simp add: N_def)
    then have nonempty: "spec_frame audio fs i \<noteq> []"
      using fs_pos by (simp add: spec_frame_nonempty)
    have "\<forall>s\<in>set (spec_frame audio fs i). \<bar>s\<bar> \<le> 2 ^ 15"
      using assms(2) spec_frame_subset[of audio fs i] by blast
    then have "frame_rms (spec_frame audio fs i) \<le> 2 ^ 15"
      using nonempty by (intro frame_rms_bound)
    then have up: "dbs ! i \<le> 0"
      by (simp only: val rms_to_db_upper)
    have lo: "- 300 < dbs ! i"
      by (simp only: val rms_to_db_lower)
    have form: "dbs ! i =
          (if frame_rms (spec_frame audio fs i) < 1 / 10 ^ 10 then - 100
           else 20 * log 10 (frame_rms (spec_frame audio fs i) / 2 ^ 15))"
      unfolding val by (simp add: rms_to_db_def)
    have below: "dbs ! i < - 100"
      if "1 / 10 ^ 10 \<le> frame_rms (spec_frame audio fs i) \<and>
          frame_rms (spec_frame audio fs i) < 2 ^ 15 / 10 ^ 5"
      using that by (simp only: val rms_to_db_below_floor)
    have above: "- 100 \<le> dbs ! i"
      if "2 ^ 15 / 10 ^ 5 \<le> frame_rms (spec_frame audio fs i)"
      using that by (simp only: val rms_to_db_at_least_floor)
    show ?thesis using up lo form below above by blast
  qed
  then show ?thesis
    unfolding fs_def by blast
qed

text \<open>
  The quiet frame of the counterexample takes the logarithm branch and lies between
  \<open>- 300\<close> and \<open>- 100\<close>; a silent frame takes the floor branch.
\<close>

theorem compute_loudness_db_range_witness:
  "compute_loudness (1 # replicate 99 0) 100 1 = Inr ([0], [20 * log 10 (1 / 327680)]) \<and>
   [20 * log 10 (1 / 327680) :: real] ! 0 =
     (if frame_rms (1 # replicate 99 0) < 1 / 10 ^ 10 then - 100
      else 20 * log 10 (frame_rms (1 # replicate 99 0) / 2 ^ 15)) \<and>
   - 300 < [20 * log 10 (1 / 327680) :: real] ! 0 \<and>
   [20 * log 10 (1 / 327680) :: real] ! 0 \<le> 0 \<and>
   [20 * log 10 (1 / 327680) :: real] ! 0 < - 100 \<and>
   compute_loudness [0, 0, 0] 2 1 = Inr ([0, 1], [- 100, - 100]) \<and>
   [- 100, - 100 :: real] ! 1 =
     (if frame_rms (spec_frame [0, 0, 0] (nat (py_int (real_of_int 2 * 1))) 1) < 1 / 10 ^ 10 then - 100
      else 20 * log 10 (frame_rms (spec_frame [0, 0, 0] (nat (py_int (real_of_int 2 * 1))) 1) / 2 ^ 15))"
proof -
  have bounded: "\<forall>s\<in>set (1 # replicate 99 (0::real)). \<bar>s\<bar> \<le> 2 ^ 15"
    by simp
  have len: "0 < length [20 * log 10 (1 / 327680) :: real]"
    by simp
  have rng: "1 / 10 ^ 10 \<le> frame_rms (1 # replicate 99 0) \<and>
             frame_rms (1 # replicate 99 0) < 2 ^ 15 / 10 ^ 5"
    by (simp add: quiet_frame_rms)
  note quiet = compute_loudness_db_range[OF quiet_frame_run bounded, THEN spec, THEN mp, OF len, unfolded quiet_frame_whole]
  have loud: "[20 * log 10 (1 / 327680) :: real] ! 0 =
     (if frame_rms (1 # replicate 99 0) < 1 / 10 ^ 10 then - 100
      else 20 * log 10 (frame_rms (1 # replicate 99 0) / 2 ^ 15)) \<and>
   - 300 < [20 * log 10 (1 / 327680) :: real] ! 0 \<and>
   [20 * log 10 (1 / 327680) :: real] ! 0 \<le> 0 \<and>
   [20 * log 10 (1 / 327680) :: real] ! 0 < - 100"
    using quiet rng by blast
  have run: "compute_loudness [0, 0, 0] 2 1 = Inr ([0, 1], [- 100, - 100])"
    by (simp add: compute_loudness_def compute_loudness_body_def py_int_def py_slice_def py_bound_def
        frame_rms_def np_mean_def rms_to_db_def upt_rec)
  have bounded': "\<forall>s\<in>set [0, 0, 0 :: real]. \<bar>s\<bar> \<le> 2 ^ 15"
    by simp
  have len': "1 < length [- 100, - 100 :: real]"
    by simp
  note silent = compute_loudness_db_range[OF run bounded', THEN spec, THEN mp, OF len']
  show ?thesis
    using quiet_frame_run loud run silent by blast
qed

section \<open>Properties of the smoother\<close>








section \<open>Properties of the highlight engine\<close>

text \<open>
  Claim C7: for times and loudness values of equal length the mask computed by
  \<^verbatim>\<open>highlight_audio_section\<close> has that length, and is true at index \<open>i\<close> exactly when
  \<open>times[i]\<close> lies in \<open>[start_time, end_time]\<close> and the value at \<open>i\<close> is above the threshold
  (when \<^verbatim>\<open>above\<close> is set) or below it (otherwise); it is false everywhere when no time
  stamp lies in the range.
\<close>

theorem highlight_condition_mask:
  assumes "length times_list = length values_db"
  shows "\<exists>mask. highlight_condition times_list values_db lo hi thr flag = Inr mask \<and>
           length mask = length times_list \<and>
           (\<forall>i<length times_list.
              mask ! i \<longleftrightarrow>
                (lo \<le> times_list ! i \<and> times_list ! i \<le> hi \<and>
                 (if flag then thr < values_db ! i else values_db ! i < thr))) \<and>
           ((\<forall>i<length times_list. \<not> (lo \<le> times_list ! i \<and> times_list ! i \<le> hi)) \<longrightarrow>
              (\<forall>i<length mask. \<not> mask ! i))"
proof -
  define in_range where
    "in_range = map2 (\<and>) (map (\<lambda>t. lo \<le> t) times_list) (map (\<lambda>t. t \<le> hi) times_list)"
  define cmp where
    "cmp = (if flag then map (\<lambda>v. thr < v) values_db else map (\<lambda>v. v < thr) values_db)"
  define mask where "mask = map2 (\<and>) in_range cmp"
  have len_range: "length in_range = length times_list"
    by (simp add: in_range_def)
  have len_cmp: "length cmp = length times_list"
    using assms by (simp add: cmp_def)
  have first: "np_elementwise (\<and>) (map (\<lambda>t. lo \<le> t) times_list) (map (\<lambda>t. t \<le> hi) times_list)
                 = Inr in_range"
    by (simp add: np_elementwise_def in_range_def)
  have second: "np_elementwise (\<and>) in_range cmp = Inr mask"
    using len_range len_cmp by (simp add: np_elementwise_def mask_def)
  have run: "highlight_condition times_list values_db lo hi thr flag = Inr mask"
    by (simp add: highlight_condition_def first second flip: cmp_def)
  have len: "length mask = length times_list"
    using len_range len_cmp by (simp add: mask_def)
  have entry: "mask ! i \<longleftrightarrow>
                 (lo \<le> times_list ! i \<and> times_list ! i \<le> hi \<and>
                  (if flag then thr < values_db ! i else values_db ! i < thr))"
    if "i < length times_list" for i
  proof -
    have "mask ! i \<longleftrightarrow> in_range ! i \<and> cmp ! i"
      using that len_range len_cmp by (simp add: mask_def)
    moreover have "in_range ! i \<longleftrightarrow> lo \<le> times_list ! i \<and> times_list ! i \<le> hi"
      using that by (simp add: in_range_def)
    moreover have "cmp ! i \<longleftrightarrow> (if flag then thr < values_db ! i else values_db ! i < thr)"
      using that assms by (simp add: cmp_def)
    ultimately show ?thesis by simp
  qed
  have none: "\<forall>i<length mask. \<not> mask ! i"
    if "\<forall>i<length times_list. \<not> (lo \<le> times_list ! i \<and> times_list ! i \<le> hi)"
    using that entry len by auto
  show ?thesis
    using run len entry none by blast
qed

text \<open>
  Three frames, the second one loud: a range that covers it marks it, a range beyond the
  last time stamp marks nothing.
\<close>

theorem highlight_condition_mask_witness:
  "highlight_condition [0, 1, 2] [- 30, - 10, - 30] 1 2 (- 20) True = Inr [False, True, False] \<and>
   highlight_condition [0, 1, 2] [- 30, - 10, - 30] 5 6 (- 20) True = Inr [False, False, False] \<and>
   (\<exists>mask. highlight_condition [0, 1, 2] [- 30, - 10, - 30] 1 2 (- 20) True = Inr mask \<and>
      length mask = length [0, 1, 2 :: real])"
proof -
  have a: "highlight_condition [0, 1, 2] [- 30, - 10, - 30] 1 2 (- 20) True = Inr [False, True, False]"
    by (simp add: highlight_condition_def np_elementwise_def)
  have b: "highlight_condition [0, 1, 2] [- 30, - 10, - 30] 5 6 (- 20) True = Inr [False, False, False]"
    by (simp add: highlight_condition_def np_elementwise_def)
  have eq: "length [0, 1, 2 :: real] = length [- 30, - 10, - 30 :: real]"
    by simp
  have c: "\<exists>mask. highlight_condition [0, 1, 2] [- 30, - 10, - 30] 1 2 (- 20) True = Inr mask \<and>
      length mask = length [0, 1, 2 :: real]"
    using highlight_condition_mask[OF eq, of 1 2 "- 20" True] by blast
  show ?thesis
    using a b c by blast
qed

section \<open>Properties of the renderer\<close>

lemma highlight_loop_append:
  "highlight_loop m ts ls (xs @ ys) s = highlight_loop m ts ls ys (highlight_loop m ts ls xs s)"
proof (induction xs arbitrary: s)
  case Nil
  then show ?case by (cases s) simp
next
  case (Cons h xs)
  then show ?case
    by (cases s) (simp split: sum.splits)
qed

lemma highlight_loop_printed:
  "highlight_loop m ts ls hs (ax, out) =
     (fst (highlight_loop m ts ls hs (ax, [])), out @ snd (highlight_loop m ts ls hs (ax, [])))"
proof (induction hs arbitrary: ax out)
  case Nil
  then show ?case by simp
next
  case (Cons h hs)
  show ?case
  proof (cases "call_highlight m ax ts ls h")
    case (Inl err)
    then show ?thesis
      using Cons[of ax "out @ [HighlightWarning h err]"] Cons[of ax "[HighlightWarning h err]"]
      by simp
  next
    case (Inr ax')
    then show ?thesis
      using Cons[of ax' out] by simp
  qed
qed

lemma highlight_loop_axes:
  "fst (highlight_loop m ts ls hs (ax, out)) = fst (highlight_loop m ts ls hs (ax, out'))"
  using highlight_loop_printed[of m ts ls hs ax out] highlight_loop_printed[of m ts ls hs ax out']
  by simp

lemma highlight_loop_keeps:
  "set out \<subseteq> set (snd (highlight_loop m ts ls hs (ax, out)))"
  using highlight_loop_printed[of m ts ls hs ax out] by simp

lemma save_figure_printed: "set (printed w) \<subseteq> set (printed (save_figure m ax path w))"
  by (auto simp: save_figure_def split: option.splits)

lemma save_figure_charts:
  "charts w = charts w' \<Longrightarrow> charts (save_figure m ax path w) = charts (save_figure m ax path w')"
  by (simp add: save_figure_def split: option.splits)

lemma plot_loudness_body_axes:
  assumes "draw_base m ts ls = Inr ax"
  shows "plot_loudness_body m ts ls path hs w =
           (case draw_axes m ts (fst (highlight_loop m ts ls hs (ax, printed w))) of
              Inl err \<Rightarrow> (Inl err, w\<lparr>printed := snd (highlight_loop m ts ls hs (ax, printed w))\<rparr>)
            | Inr ax'' \<Rightarrow> (Inr (), save_figure m ax'' path
                                      (w\<lparr>printed := snd (highlight_loop m ts ls hs (ax, printed w))\<rparr>)))"
  using assms by (simp add: plot_loudness_body_def Let_def case_prod_beta)

text \<open>
  Claim C8: when the call for one highlight fails, at the axes reached after the
  highlights before it, the loop prints a warning for it and carries on with the
  highlights after it. The axes after the loop, the result of \<^verbatim>\<open>plot_loudness\<close> and the
  saved charts are those of the run without the failing highlight, and the warning is
  among the printed lines.
\<close>

theorem failing_highlight_is_skipped:
  assumes base: "draw_base m ts ls = Inr ax"
    and before: "highlight_loop m ts ls hs1 (ax, printed w) = (ax1, out1)"
    and fails: "call_highlight m ax1 ts ls h = Inl err"
  shows "highlight_loop m ts ls (hs1 @ h # hs2) (ax, printed w)
           = highlight_loop m ts ls hs2 (ax1, out1 @ [HighlightWarning h err]) \<and>
         fst (highlight_loop m ts ls (hs1 @ h # hs2) (ax, printed w))
           = fst (highlight_loop m ts ls (hs1 @ hs2) (ax, printed w)) \<and>
         fst (plot_loudness m ts ls path (hs1 @ h # hs2) w)
           = fst (plot_loudness m ts ls path (hs1 @ hs2) w) \<and>
         charts (snd (plot_loudness m ts ls path (hs1 @ h # hs2) w))
           = charts (snd (plot_loudness m ts ls path (hs1 @ hs2) w)) \<and>
         HighlightWarning h err \<in> set (printed (snd (plot_loudness m ts ls path (hs1 @ h # hs2) w)))"
proof -
  let ?with = "highlight_loop m ts ls (hs1 @ h # hs2) (ax, printed w)"
  let ?without = "highlight_loop m ts ls (hs1 @ hs2) (ax, printed w)"
  have loop: "?with = highlight_loop m ts ls hs2 (ax1, out1 @ [HighlightWarning h err])"
    using before fails by (simp add: highlight_loop_append)
  have "?without = highlight_loop m ts ls hs2 (ax1, out1)"
    using before by (simp add: highlight_loop_append)
  then have axes: "fst ?with = fst ?without"
    using loop highlight_loop_axes[of m ts ls hs2 ax1 "out1 @ [HighlightWarning h err]" out1]
    by simp
  have warned: "HighlightWarning h err \<in> set (snd ?with)"
    using highlight_loop_keeps[of "out1 @ [HighlightWarning h err]" m ts ls hs2 ax1] loop
    by auto
  have body_with: "plot_loudness_body m ts ls path (hs1 @ h # hs2) w =
      (case draw_axes m ts (fst ?with) of
         Inl e \<Rightarrow> (Inl e, w\<lparr>printed := snd ?with\<rparr>)
       | Inr ax'' \<Rightarrow> (Inr (), save_figure m ax'' path (w\<lparr>printed := snd ?with\<rparr>)))"
    by (rule plot_loudness_body_axes[OF base])
  have body_without: "plot_loudness_body m ts ls path (hs1 @ hs2) w =
      (case draw_axes m ts (fst ?without) of
         Inl e \<Rightarrow> (Inl e, w\<lparr>printed := snd ?without\<rparr>)
       | Inr ax'' \<Rightarrow> (Inr (), save_figure m ax'' path (w\<lparr>printed := snd ?without\<rparr>)))"
    by (rule plot_loudness_body_axes[OF base])
  have same_charts: "charts (w\<lparr>printed := snd ?with\<rparr>) = charts (w\<lparr>printed := snd ?without\<rparr>)"
    by simp
  show ?thesis
  proof (cases "draw_axes m ts (fst ?without)")
    case (Inl e)
    then have "plot_loudness m ts ls path (hs1 @ h # hs2) w =
                 (Inl (RuntimeError ''Error occurred while plotting loudness'' e), w\<lparr>printed := snd ?with\<rparr>)"
      and "plot_loudness m ts ls path (hs1 @ hs2) w =
                 (Inl (RuntimeError ''Error occurred while plotting loudness'' e), w\<lparr>printed := snd ?without\<rparr>)"
      using axes by (simp_all add: plot_loudness_def body_with body_without)
    then show ?thesis
      using loop axes warned by simp
  next
    case (Inr ax'')
    then have a: "plot_loudness m ts ls path (hs1 @ h # hs2) w =
                 (Inr (), save_figure m ax'' path (w\<lparr>printed := snd ?with\<rparr>))"
      and b: "plot_loudness m ts ls path (hs1 @ hs2) w =
                 (Inr (), save_figure m ax'' path (w\<lparr>printed := snd ?without\<rparr>))"
      using axes by (simp_all add: plot_loudness_def body_with body_without)
    have "HighlightWarning h err \<in> set (printed (save_figure m ax'' path (w\<lparr>printed := snd ?with\<rparr>)))"
      using warned save_figure_printed[of "w\<lparr>printed := snd ?with\<rparr>" m ax'' path] by auto
    then show ?thesis
      using loop axes a b save_figure_charts[OF same_charts, of m ax'' path] by simp
  qed
qed

text \<open>
  A highlight with a colour the library rejects, between two good ones: the chart holds
  the curve, the reference lines and the two good overlays.
\<close>

theorem failing_highlight_is_skipped_witness:
  "fst (plot_loudness demo_mpl [0, 1] [- 30, - 10] ''out.png''
          ([demo_highlight ''red''] @ demo_highlight ''bogus'' # [demo_highlight ''gray'']) demo_world)
     = fst (plot_loudness demo_mpl [0, 1] [- 30, - 10] ''out.png''
          ([demo_highlight ''red''] @ [demo_highlight ''gray'']) demo_world) \<and>
   charts (snd (plot_loudness demo_mpl [0, 1] [- 30, - 10] ''out.png''
          ([demo_highlight ''red''] @ demo_highlight ''bogus'' # [demo_highlight ''gray'']) demo_world))
     = [(''out.png'', [''curve'', ''red'', ''blue'', ''red'', ''gray''])] \<and>
   HighlightWarning (demo_highlight ''bogus'')
       (RuntimeError ''Error highlighting audio section'' (LibraryError ''Invalid color''))
     \<in> set (printed (snd (plot_loudness demo_mpl [0, 1] [- 30, - 10] ''out.png''
          ([demo_highlight ''red''] @ demo_highlight ''bogus'' # [demo_highlight ''gray'']) demo_world)))"
proof -
  have base: "draw_base demo_mpl [0, 1] [- 30, - 10] = Inr [''curve'', ''red'', ''blue'']"
    by (simp add: draw_base_def demo_mpl_def)
  have before: "highlight_loop demo_mpl [0, 1] [- 30, - 10] [demo_highlight ''red'']
                  ([''curve'', ''red'', ''blue''], printed demo_world)
                = ([''curve'', ''red'', ''blue'', ''red''], [])"
    by (simp add: demo_highlight_def call_highlight_def highlight_audio_section_def
        highlight_condition_def np_elementwise_def demo_mpl_def demo_world_def)
  have fails: "call_highlight demo_mpl [''curve'', ''red'', ''blue'', ''red''] [0, 1] [- 30, - 10]
                 (demo_highlight ''bogus'')
               = Inl (RuntimeError ''Error highlighting audio section'' (LibraryError ''Invalid color''))"
    by (simp add: demo_highlight_def call_highlight_def highlight_audio_section_def
        highlight_condition_def np_elementwise_def demo_mpl_def)
  have run: "charts (snd (plot_loudness demo_mpl [0, 1] [- 30, - 10] ''out.png''
          ([demo_highlight ''red''] @ [demo_highlight ''gray'']) demo_world))
     = [(''out.png'', [''curve'', ''red'', ''blue'', ''red'', ''gray''])]"
    by (simp add: plot_loudness_def plot_loudness_body_def draw_base_def draw_axes_def py_last_def
        save_figure_def demo_highlight_def call_highlight_def highlight_audio_section_def
        highlight_condition_def np_elementwise_def demo_mpl_def demo_world_def)
  show ?thesis
    using failing_highlight_is_skipped[OF base before fails, of "[demo_highlight ''gray'']" "''out.png''"] run
    by simp
qed

text \<open>
  Claim C10: with an empty \<^verbatim>\<open>times\<close>, \<^verbatim>\<open>plot_loudness\<close> always raises the wrapping
  \<^verbatim>\<open>RuntimeError\<close> and saves no chart; when the calls before the x axis succeed, the
  wrapped exception is the \<^verbatim>\<open>IndexError\<close> of \<^verbatim>\<open>times[-1]\<close>.
\<close>

theorem plot_loudness_empty_series:
  "(\<exists>err w'. plot_loudness m [] loudness save_path highlights w
               = (Inl (RuntimeError ''Error occurred while plotting loudness'' err), w') \<and>
             charts w' = charts w \<and> files w' = files w) \<and>
   (draw_base m [] loudness = Inr ax \<and>
    decorate m (fst (highlight_loop m [] loudness highlights (ax, printed w))) = Inr ax' \<longrightarrow>
      fst (plot_loudness m [] loudness save_path highlights w)
        = Inl (RuntimeError ''Error occurred while plotting loudness'' IndexError))"
proof -
  have axes: "\<exists>err. draw_axes m [] a = Inl err" for a
    by (simp add: draw_axes_def py_last_def split: sum.splits)
  have first: "\<exists>err w'. plot_loudness m [] loudness save_path highlights w
               = (Inl (RuntimeError ''Error occurred while plotting loudness'' err), w') \<and>
             charts w' = charts w \<and> files w' = files w"
  proof (cases "draw_base m [] loudness")
    case (Inl e)
    then show ?thesis
      by (simp add: plot_loudness_def plot_loudness_body_def)
  next
    case (Inr a)
    obtain e where "draw_axes m [] (fst (highlight_loop m [] loudness highlights (a, printed w))) = Inl e"
      using axes by blast
    then show ?thesis
      by (simp add: plot_loudness_def plot_loudness_body_axes[OF Inr])
  qed
  have second: "fst (plot_loudness m [] loudness save_path highlights w)
        = Inl (RuntimeError ''Error occurred while plotting loudness'' IndexError)"
    if "draw_base m [] loudness = Inr ax"
      and "decorate m (fst (highlight_loop m [] loudness highlights (ax, printed w))) = Inr ax'"
  proof -
    have "draw_axes m [] (fst (highlight_loop m [] loudness highlights (ax, printed w))) = Inl IndexError"
      using that(2) by (simp add: draw_axes_def py_last_def)
    then show ?thesis
      by (simp add: plot_loudness_def plot_loudness_body_axes[OF that(1)])
  qed
  show ?thesis
    using first second by blast
qed

text \<open>
The empty series on the stand-in library.
\<close>

theorem plot_loudness_empty_series_witness:
  "plot_loudness demo_mpl [] [] ''out.png'' [] demo_world
     = (Inl (RuntimeError ''Error occurred while plotting loudness'' IndexError), demo_world) \<and>
   fst (plot_loudness demo_mpl [] [] ''out.png'' [] demo_world)
     = Inl (RuntimeError ''Error occurred while plotting loudness'' IndexError)"
proof -
  have base: "draw_base demo_mpl [] [] = Inr [''curve'', ''red'', ''blue'']"
    by (simp add: draw_base_def demo_mpl_def)
  have dec: "decorate demo_mpl (fst (highlight_loop demo_mpl [] [] [] ([''curve'', ''red'', ''blue''], printed demo_world)))
               = Inr [''curve'', ''red'', ''blue'']"
    by (simp add: demo_mpl_def)
  have run: "plot_loudness demo_mpl [] [] ''out.png'' [] demo_world
     = (Inl (RuntimeError ''Error occurred while plotting loudness'' IndexError), demo_world)"
    by (simp add: plot_loudness_def plot_loudness_body_def draw_base_def draw_axes_def py_last_def
        demo_mpl_def demo_world_def)
  have "fst (plot_loudness demo_mpl [] [] ''out.png'' [] demo_world)
     = Inl (RuntimeError ''Error occurred while plotting loudness'' IndexError)"
    using plot_loudness_empty_series[of demo_mpl "[]" "''out.png''" "[]" demo_world "[''curve'', ''red'', ''blue'']"
                     "[''curve'', ''red'', ''blue'']"] base dec
    by blast
  then show ?thesis
    using run by blast
qed

section \<open>Properties of the pipeline\<close>

lemma remove_temp_deleted:
  "os_remove AUDIO_TEMP_PATH = None \<Longrightarrow> AUDIO_TEMP_PATH \<notin> files (remove_temp os_remove w)"
  by (simp add: remove_temp_def)

lemma remove_temp_left:
  assumes "AUDIO_TEMP_PATH \<in> files (remove_temp os_remove w)"
  shows "\<exists>err. os_remove AUDIO_TEMP_PATH = Some err \<and>
           printed (remove_temp os_remove w) = printed w @ [RemoveError err] \<and>
           AUDIO_TEMP_PATH \<in> files w"
  using assms by (auto simp: remove_temp_def split: if_splits option.splits)

lemma remove_temp_printed:
  "printed (remove_temp os_remove w) = printed w \<or>
   (\<exists>err. os_remove AUDIO_TEMP_PATH = Some err \<and> AUDIO_TEMP_PATH \<in> files w \<and>
      printed (remove_temp os_remove w) = printed w @ [RemoveError err])"
  by (auto simp: remove_temp_def split: option.splits)

lemma remove_temp_charts: "charts (remove_temp os_remove w) = charts w"
  by (simp add: remove_temp_def split: option.splits)

lemma remove_temp_succeeds_printed: "printed (remove_temp (\<lambda>p. None) w) = printed w"
  by (simp add: remove_temp_def)

text \<open>
  Claim C9: whatever the stages of \<^verbatim>\<open>main\<close> do, the temporary audio file is gone afterwards
  when \<^verbatim>\<open>os.remove\<close> succeeds; it is left on disk only when \<^verbatim>\<open>os.remove\<close> itself raised,
  which is printed. The error of a failed stage is printed in either case, and the run
  with a failing \<^verbatim>\<open>os.remove\<close> differs from the run with a succeeding one by that last
  printed line only: the charts and the lines before it are the same.
\<close>

theorem temp_audio_cleanup:
  "(os_remove AUDIO_TEMP_PATH = None \<longrightarrow>
      AUDIO_TEMP_PATH \<notin> files (main io m os_remove video dir name hs w)) \<and>
   (AUDIO_TEMP_PATH \<in> files (main io m os_remove video dir name hs w) \<longrightarrow>
      (\<exists>err. os_remove AUDIO_TEMP_PATH = Some err \<and>
         printed (main io m os_remove video dir name hs w)
           = printed (main io m (\<lambda>p. None) video dir name hs w) @ [RemoveError err])) \<and>
   (fst (main_body io m video (path_join io dir name) hs w) = Inl e \<longrightarrow>
      MainError e \<in> set (printed (main io m os_remove video dir name hs w))) \<and>
   charts (main io m os_remove video dir name hs w)
     = charts (main io m (\<lambda>p. None) video dir name hs w) \<and>
   (printed (main io m os_remove video dir name hs w)
      = printed (main io m (\<lambda>p. None) video dir name hs w) \<or>
    (\<exists>err. os_remove AUDIO_TEMP_PATH = Some err \<and>
       printed (main io m os_remove video dir name hs w)
         = printed (main io m (\<lambda>p. None) video dir name hs w) @ [RemoveError err]))"
proof -
  define r where "r = fst (main_body io m video (path_join io dir name) hs w)"
  define w1 where "w1 = snd (main_body io m video (path_join io dir name) hs w)"
  define w2 where
    "w2 = (case r of Inl err \<Rightarrow> w1\<lparr>printed := printed w1 @ [MainError err]\<rparr> | Inr u \<Rightarrow> w1)"
  have run: "main io m rm video dir name hs w = remove_temp rm w2" for rm
    by (simp add: main_def w2_def r_def w1_def Let_def split: prod.splits sum.splits)
  have quiet: "printed (main io m (\<lambda>p. None) video dir name hs w) = printed w2"
    by (simp add: run remove_temp_succeeds_printed)
  have a: "os_remove AUDIO_TEMP_PATH = None \<longrightarrow>
      AUDIO_TEMP_PATH \<notin> files (main io m os_remove video dir name hs w)"
    by (simp add: run remove_temp_deleted)
  have b: "AUDIO_TEMP_PATH \<in> files (main io m os_remove video dir name hs w) \<longrightarrow>
      (\<exists>err. os_remove AUDIO_TEMP_PATH = Some err \<and>
         printed (main io m os_remove video dir name hs w)
           = printed (main io m (\<lambda>p. None) video dir name hs w) @ [RemoveError err])"
    unfolding quiet using remove_temp_left[of os_remove w2] by (auto simp: run)
  have kept: "set (printed w2) \<subseteq> set (printed (remove_temp os_remove w2))"
    using remove_temp_printed[of os_remove w2] by auto
  have c: "fst (main_body io m video (path_join io dir name) hs w) = Inl e \<longrightarrow>
      MainError e \<in> set (printed (main io m os_remove video dir name hs w))"
  proof
    assume "fst (main_body io m video (path_join io dir name) hs w) = Inl e"
    then have "MainError e \<in> set (printed w2)"
      by (simp add: w2_def r_def)
    then show "MainError e \<in> set (printed (main io m os_remove video dir name hs w))"
      using kept by (auto simp: run)
  qed
  have d: "charts (main io m os_remove video dir name hs w)
     = charts (main io m (\<lambda>p. None) video dir name hs w)"
    by (simp add: run remove_temp_charts)
  have e: "printed (main io m os_remove video dir name hs w)
      = printed (main io m (\<lambda>p. None) video dir name hs w) \<or>
    (\<exists>err. os_remove AUDIO_TEMP_PATH = Some err \<and>
       printed (main io m os_remove video dir name hs w)
         = printed (main io m (\<lambda>p. None) video dir name hs w) @ [RemoveError err])"
    unfolding quiet using remove_temp_printed[of os_remove w2] by (auto simp: run)
  show ?thesis
    using a b c d e by blast
qed

text \<open>
  A complete run: three silent samples at ten samples per second give three frames, the
  chart is saved and the temporary file is removed.
\<close>

lemma main_demo_run:
  "main demo_video demo_mpl (\<lambda>p. None) ''clip.mp4'' ''out'' ''graph.png'' [] demo_world
     = \<lparr>printed = [], charts = [(''out/graph.png'', [''curve'', ''red'', ''blue''])], files = {}\<rparr>"
proof -
  have loud: "compute_loudness [0, 0, 0] 10 FRAME_DURATION = Inr ([0, 1 / 10, 2 / 10], [- 100, - 100, - 100])"
    by (simp add: FRAME_DURATION_def compute_loudness_def compute_loudness_body_def py_int_def
        py_slice_def py_bound_def frame_rms_def np_mean_def rms_to_db_def upt_rec)
  have smooth: "moving_average [- 100, - 100, - 100] smooth_window = Inr [- 200 / 3, - 100, - 200 / 3]"
    by (simp add: smooth_window_def moving_average_def np_ones_div_def np_convolve_same_def
        conv_full_def upt_rec numeral_3_eq_3 nth_Cons')
  have plot: "plot_loudness demo_mpl [0, 1 / 10, 1 / 5] [- (200 / 3), - 100, - (200 / 3)] ''out/graph.png'' []
                (demo_world\<lparr>files := {AUDIO_TEMP_PATH}\<rparr>)
              = (Inr (), \<lparr>printed = [], charts = [(''out/graph.png'', [''curve'', ''red'', ''blue''])],
                          files = {AUDIO_TEMP_PATH}\<rparr>)"
    by (simp add: plot_loudness_def plot_loudness_body_def draw_base_def draw_axes_def py_last_def
        save_figure_def demo_mpl_def demo_world_def)
  have extracted: "extract_audio_from_video demo_video ''clip.mp4'' AUDIO_TEMP_PATH demo_world
                 = (Inr (), demo_world\<lparr>files := {AUDIO_TEMP_PATH}\<rparr>)"
    by (simp add: extract_audio_from_video_def demo_video_def demo_world_def)
  have loaded: "read_audio demo_video AUDIO_TEMP_PATH = Inr (10, [0, 0, 0])"
    by (simp add: read_audio_def demo_video_def)
  have body: "main_body demo_video demo_mpl ''clip.mp4'' ''out/graph.png'' [] demo_world
              = (Inr (), \<lparr>printed = [], charts = [(''out/graph.png'', [''curve'', ''red'', ''blue''])],
                          files = {AUDIO_TEMP_PATH}\<rparr>)"
    by (simp add: main_body_def extracted loaded loud smooth plot)
  have join: "path_join demo_video ''out'' ''graph.png'' = ''out/graph.png''"
    by (simp add: demo_video_def)
  show ?thesis
    by (simp add: main_def join body remove_temp_def)
qed

text \<open>
  A video without an audio track and a stale temporary file: the file is removed when
  \<^verbatim>\<open>os.remove\<close> succeeds; when it is denied, the message of the failed stage is still
  printed, followed by the message of the failed removal.
\<close>

theorem temp_audio_cleanup_witness:
  "AUDIO_TEMP_PATH \<notin> files (main silent_video demo_mpl (\<lambda>p. None) ''clip.mp4'' ''out'' ''graph.png'' []
                                (demo_world\<lparr>files := {AUDIO_TEMP_PATH}\<rparr>)) \<and>
   printed (main silent_video demo_mpl (\<lambda>p. Some (LibraryError ''Permission denied''))
              ''clip.mp4'' ''out'' ''graph.png'' [] (demo_world\<lparr>files := {AUDIO_TEMP_PATH}\<rparr>))
     = printed (main silent_video demo_mpl (\<lambda>p. None) ''clip.mp4'' ''out'' ''graph.png'' []
                  (demo_world\<lparr>files := {AUDIO_TEMP_PATH}\<rparr>))
       @ [RemoveError (LibraryError ''Permission denied'')] \<and>
   MainError (ValueError ''No audio track found in the video file.'')
     \<in> set (printed (main silent_video demo_mpl (\<lambda>p. Some (LibraryError ''Permission denied''))
                       ''clip.mp4'' ''out'' ''graph.png'' [] (demo_world\<lparr>files := {AUDIO_TEMP_PATH}\<rparr>)))"
proof -
  let ?w = "demo_world\<lparr>files := {AUDIO_TEMP_PATH}\<rparr> :: string list world"
  let ?deny = "\<lambda>p :: string. Some (LibraryError ''Permission denied'')"
  have body: "main_body silent_video demo_mpl ''clip.mp4'' (path_join silent_video ''out'' ''graph.png'') [] ?w
              = (Inl (ValueError ''No audio track found in the video file.''), ?w)"
    by (simp add: main_body_def extract_audio_from_video_def silent_video_def)
  have left: "AUDIO_TEMP_PATH \<in> files (main silent_video demo_mpl ?deny ''clip.mp4'' ''out'' ''graph.png'' [] ?w)"
    by (simp add: main_def body remove_temp_def)
  have ok: "(\<lambda>p :: string. None :: error option) AUDIO_TEMP_PATH = None"
    by simp
  have failed: "fst (main_body silent_video demo_mpl ''clip.mp4'' (path_join silent_video ''out'' ''graph.png'') [] ?w)
                  = Inl (ValueError ''No audio track found in the video file.'')"
    by (simp add: body)
  have a: "AUDIO_TEMP_PATH \<notin> files (main silent_video demo_mpl (\<lambda>p. None) ''clip.mp4'' ''out'' ''graph.png'' [] ?w)"
    using temp_audio_cleanup[of "\<lambda>p. None" silent_video demo_mpl "''clip.mp4''" "''out''" "''graph.png''" "[]" ?w] ok
    by blast
  have b: "printed (main silent_video demo_mpl ?deny ''clip.mp4'' ''out'' ''graph.png'' [] ?w)
     = printed (main silent_video demo_mpl (\<lambda>p. None) ''clip.mp4'' ''out'' ''graph.png'' [] ?w)
       @ [RemoveError (LibraryError ''Permission denied'')]"
    using temp_audio_cleanup[of ?deny silent_video demo_mpl "''clip.mp4''" "''out''" "''graph.png''" "[]" ?w] left
    by auto
  have c: "MainError (ValueError ''No audio track found in the video file.'')
     \<in> set (printed (main silent_video demo_mpl ?deny ''clip.mp4'' ''out'' ''graph.png'' [] ?w))"
    using temp_audio_cleanup[of ?deny silent_video demo_mpl "''clip.mp4''" "''out''" "''graph.png''" "[]" ?w
                    "ValueError ''No audio track found in the video file.''"] failed
    by blast
  show ?thesis
    using a b c by blast
qed

end
